theory Spec2Isabelle
  imports Complex_Main
begin

section \<open>Particle planet: gesture interpretation, smoothing and displacement\<close>

text \<open>
  The program is a browser script (\<^verbatim>\<open>script.js\<close>) and an earlier build of the same
  script that talks to the legacy hand-tracking interface.  JavaScript numbers and GLSL
  floats are modelled as exact real numbers: every statement below is about the
  arithmetic the code writes down, not about IEEE rounding, NaN or infinities.
  Drawing on the preview canvas, the scene graph and the renderer are not part of the
  state.
\<close>

subsection \<open>Data\<close>

text \<open>A hand landmark: \<^verbatim>\<open>{x, y}\<close> in normalised image coordinates.\<close>

record landmark =
  lm_x :: real
  lm_y :: real

type_synonym hand = "landmark list"

text \<open>\<^verbatim>\<open>THREE.Vector3\<close>.\<close>

record vec3 =
  vx :: real
  vy :: real
  vz :: real

text \<open>The frame result of the landmark provider; \<^verbatim>\<open>results.landmarks\<close> may be
  undefined (\<open>None\<close>).\<close>

record results =
  landmarks :: "hand list option"

datatype js_error = TypeError

text \<open>
  The mutable state the script keeps: the shader uniforms, the \<^verbatim>\<open>window.*\<close> globals
  (undefined until first written, hence \<open>option\<close>), the pointer vector, the particle
  rotation, the camera distance, the timestamp of the last processed video frame and
  the log of detection requests sent to the landmark provider.
\<close>

record app_state =
  uTime :: real
  uMouse :: vec3
  uHover :: real
  mouse :: "real \<times> real"
  targetZoom :: "real option"
  currentZoom :: "real option"
  targetRotationSpeed :: "real option"
  currentRotationSpeed :: "real option"
  rotation_y :: real
  camera_z :: real
  lastVideoTime :: real
  detections :: "real list"

definition initial_state :: app_state where
  "initial_state =
     \<lparr> uTime = 0, uMouse = \<lparr> vx = 9999, vy = 9999, vz = 9999 \<rparr>, uHover = 0,
       mouse = (0, 0), targetZoom = None, currentZoom = None,
       targetRotationSpeed = None, currentRotationSpeed = None,
       rotation_y = 0, camera_z = 15, lastVideoTime = - 1, detections = [] \<rparr>"

subsection \<open>updateInteraction\<close>

text \<open>
  The ray cast of three.js is outside the repository: \<open>ray x y\<close> is the point where the
  camera ray through the device coordinates \<open>(x, y)\<close> meets the plane \<open>z = 0\<close>, or
  \<open>None\<close> when \<^verbatim>\<open>intersectPlane\<close> returns null.  \<^verbatim>\<open>intersectPlane(plane, target)\<close>
  writes a hit into \<^verbatim>\<open>target\<close> and leaves it as it was on a miss.
\<close>

type_synonym raycast = "real \<Rightarrow> real \<Rightarrow> vec3 option"

definition Vector3 :: vec3 where
  "Vector3 = \<lparr> vx = 0, vy = 0, vz = 0 \<rparr>"

definition intersectPlane :: "vec3 option \<Rightarrow> vec3 \<Rightarrow> vec3" where
  "intersectPlane hit target = (case hit of None \<Rightarrow> target | Some p \<Rightarrow> p)"

text \<open>
  \<^verbatim>\<open>if (target)\<close> tests the reference held by \<^verbatim>\<open>target\<close>: an object reference is
  \<open>Some\<close>, null or undefined would be \<open>None\<close>.  The reference is the one made by
  \<^verbatim>\<open>new THREE.Vector3()\<close>; the value \<^verbatim>\<open>intersectPlane\<close> returns is dropped.
\<close>

definition updateInteraction :: "raycast \<Rightarrow> real \<Rightarrow> real \<Rightarrow> app_state \<Rightarrow> app_state" where
  "updateInteraction ray x y s =
     (let s0 = s\<lparr> mouse := (x, y) \<rparr>;
          target = Some (intersectPlane (ray x y) Vector3)
      in case target of
           Some v \<Rightarrow> s0\<lparr> uMouse := v, uHover := 1 \<rparr>
         | None \<Rightarrow> s0\<lparr> uHover := 0 \<rparr>)"

subsection \<open>onResults\<close>

text \<open>\<^verbatim>\<open>landmarks[i]\<close>: undefined (\<open>None\<close>) past the end of the array.\<close>

definition index_at :: "'a list \<Rightarrow> nat \<Rightarrow> 'a option" where
  "index_at xs i = (if i < length xs then Some (xs ! i) else None)"

text \<open>\<^verbatim>\<open>Math.hypot(a, b)\<close> and the local \<^verbatim>\<open>dist\<close> of onResults.\<close>

definition hypot :: "real \<Rightarrow> real \<Rightarrow> real" where
  "hypot a b = sqrt (a * a + b * b)"

definition dist_lm :: "landmark \<Rightarrow> landmark \<Rightarrow> real" where
  "dist_lm p1 p2 = hypot (lm_x p1 - lm_x p2) (lm_y p1 - lm_y p2)"

text \<open>
  \<^verbatim>\<open>drawHand\<close> walks the provider's \<^verbatim>\<open>HAND_CONNECTIONS\<close> table, when there is one, and
  for every connection \<open>c\<close> reads \<^verbatim>\<open>landmarks[c[0]].x\<close> and \<^verbatim>\<open>landmarks[c[1]].x\<close>.  The
  table is the library's, so it is a parameter.  An entry of a table is a two-element
  array of landmark indices or an object \<^verbatim>\<open>{start, end}\<close>; \<^verbatim>\<open>c[0]\<close> and \<^verbatim>\<open>c[1]\<close> are its
  elements on an array and undefined on an object, which has no such properties.
\<close>

datatype connection = Index_pair nat nat | Start_end nat nat

text \<open>\<^verbatim>\<open>connection[i]\<close>.\<close>

definition connection_at :: "connection \<Rightarrow> nat \<Rightarrow> nat option" where
  "connection_at c i =
     (case c of
        Index_pair a b \<Rightarrow> (if i = 0 then Some a else if i = 1 then Some b else None)
      | Start_end a b \<Rightarrow> None)"

text \<open>\<^verbatim>\<open>landmarks[k]\<close> for a key \<open>k\<close> that may be undefined: \<^verbatim>\<open>landmarks[undefined]\<close> is
  undefined.\<close>

definition landmark_at :: "hand \<Rightarrow> nat option \<Rightarrow> landmark option" where
  "landmark_at lms k = (case k of None \<Rightarrow> None | Some i \<Rightarrow> index_at lms i)"

text \<open>
  Whether \<^verbatim>\<open>drawHand\<close> completes: reading \<^verbatim>\<open>.x\<close> of an undefined \<^verbatim>\<open>start\<close> or \<^verbatim>\<open>end\<close>
  throws a TypeError.  The loop over the landmarks themselves cannot throw.
\<close>

definition drawHand :: "connection list option \<Rightarrow> hand \<Rightarrow> bool" where
  "drawHand conns lms =
     (case conns of
        None \<Rightarrow> True
      | Some cs \<Rightarrow>
          list_all
            (\<lambda>connection.
               (case landmark_at lms (connection_at connection 0) of
                  None \<Rightarrow> False
                | Some start \<Rightarrow>
                    (case landmark_at lms (connection_at connection 1) of
                       None \<Rightarrow> False
                     | Some end' \<Rightarrow> True)))
            cs)"

text \<open>
  The table that \<^verbatim>\<open>script.js\<close> walks: \<^verbatim>\<open>HandLandmarker.HAND_CONNECTIONS\<close> of the
  \<^verbatim>\<open>@mediapipe/tasks-vision\<close> package it imports (version 0.10.3 is the one it loads),
  which is an array of 21 objects \<^verbatim>\<open>{start, end}\<close>.
\<close>

definition HAND_CONNECTIONS :: "connection list" where
  "HAND_CONNECTIONS =
     [Start_end 0 1, Start_end 1 2, Start_end 2 3, Start_end 3 4,
      Start_end 0 5, Start_end 5 6, Start_end 6 7, Start_end 7 8,
      Start_end 5 9, Start_end 9 10, Start_end 10 11, Start_end 11 12,
      Start_end 9 13, Start_end 13 14, Start_end 14 15, Start_end 15 16,
      Start_end 13 17, Start_end 0 17, Start_end 17 18, Start_end 18 19,
      Start_end 19 20]"

text \<open>
  The body of the loop over the hands of a frame.  A read of \<^verbatim>\<open>.x\<close> on an undefined
  landmark throws; the state changes made before the throw stay.
\<close>

definition onResults_hand ::
  "connection list option \<Rightarrow> raycast \<Rightarrow> hand \<Rightarrow> app_state \<Rightarrow> js_error option \<times> app_state" where
  "onResults_hand conns ray lms s =
     (if \<not> drawHand conns lms then (Some TypeError, s)
      else case index_at lms 8 of
        None \<Rightarrow> (Some TypeError, s)
      | Some indexTip \<Rightarrow>
          (let x = lm_x indexTip * 2 - 1;
               y = - (lm_y indexTip * 2 - 1);
               s1 = updateInteraction ray x y s
           in case (index_at lms 0, index_at lms 12, index_at lms 5) of
                (Some wrist, Some middleTip, Some indexMcp) \<Rightarrow>
                  (let currentDist = dist_lm wrist middleTip;
                       refScale = dist_lm wrist indexMcp;
                       ratio = (if refScale > 0 then currentDist / refScale else 0);
                       zoom = (ratio - 0.8) / (1.8 - 0.8);
                       zoom' = max 0.0 (min 1.0 zoom);
                       s2 = s1\<lparr> targetZoom := Some zoom' \<rparr>
                   in if lm_x indexTip < 0.2 then (None, s2\<lparr> targetRotationSpeed := Some (- 0.05) \<rparr>)
                      else if lm_x indexTip > 0.8 then (None, s2\<lparr> targetRotationSpeed := Some 0.05 \<rparr>)
                      else (None, s2\<lparr> targetRotationSpeed := Some 0.002 \<rparr>))
              | _ \<Rightarrow> (Some TypeError, s1)))"

fun onResults_loop ::
  "connection list option \<Rightarrow> raycast \<Rightarrow> hand list \<Rightarrow> app_state \<Rightarrow> js_error option \<times> app_state" where
  "onResults_loop conns ray [] s = (None, s)"
| "onResults_loop conns ray (lms # rest) s =
     (case onResults_hand conns ray lms s of
        (None, s') \<Rightarrow> onResults_loop conns ray rest s'
      | (Some e, s') \<Rightarrow> (Some e, s'))"

definition onResults ::
  "connection list option \<Rightarrow> raycast \<Rightarrow> results \<Rightarrow> app_state \<Rightarrow> js_error option \<times> app_state" where
  "onResults conns ray res s =
     (case landmarks res of
        Some hs \<Rightarrow>
          if length hs > 0 then onResults_loop conns ray hs s
          else (None, s\<lparr> uHover := 0, targetRotationSpeed := Some 0.002 \<rparr>)
      | None \<Rightarrow> (None, s\<lparr> uHover := 0, targetRotationSpeed := Some 0.002 \<rparr>))"

subsection \<open>Pointer and touch handlers\<close>

text \<open>
  The \<^verbatim>\<open>mousemove\<close> listener, and the touch listener of the legacy build (which goes
  through \<^verbatim>\<open>handleInput\<close>).  A touch is its \<^verbatim>\<open>(clientX, clientY)\<close>; the window size is
  given.
\<close>

definition mousemove :: "raycast \<Rightarrow> real \<Rightarrow> real \<Rightarrow> real \<Rightarrow> real \<Rightarrow> app_state \<Rightarrow> app_state" where
  "mousemove ray clientX clientY innerWidth innerHeight s =
     (let x = (clientX / innerWidth) * 2 - 1;
          y = - (clientY / innerHeight) * 2 + 1
      in updateInteraction ray x y s)"

definition handleInput :: "raycast \<Rightarrow> real \<Rightarrow> real \<Rightarrow> app_state \<Rightarrow> app_state" where
  "handleInput ray x y s = updateInteraction ray x y s"

definition onTouch :: "raycast \<Rightarrow> (real \<times> real) list \<Rightarrow> real \<Rightarrow> real \<Rightarrow> app_state \<Rightarrow> app_state" where
  "onTouch ray touches innerWidth innerHeight s =
     (if length touches > 0 then
        (let touch = touches ! 0;
             x = (fst touch / innerWidth) * 2 - 1;
             y = - (snd touch / innerHeight) * 2 + 1
         in handleInput ray x y s)
      else s)"

subsection \<open>animate\<close>

text \<open>\<^verbatim>\<open>if (v === undefined) v = d\<close>, read as a value.\<close>

definition or_default :: "real option \<Rightarrow> real \<Rightarrow> real" where
  "or_default v d = (case v of None \<Rightarrow> d | Some a \<Rightarrow> a)"

text \<open>
  One render tick, up to the assignment of the camera distance; \<open>elapsedTime\<close> is the
  reading of the clock.  The orbit controls and the renderer run after it.
\<close>

definition animate :: "real \<Rightarrow> app_state \<Rightarrow> app_state" where
  "animate elapsedTime s =
     (let trs = or_default (targetRotationSpeed s) 0.002;
          crs = or_default (currentRotationSpeed s) 0.002;
          crs' = crs + (trs - crs) * 0.05;
          (tz, cz) = (case targetZoom s of
                        None \<Rightarrow> (0, 0)
                      | Some t \<Rightarrow> (t, or_default (currentZoom s) 0));
          cz' = cz + (tz - cz) * 0.1;
          minZ = 8;
          maxZ = 25;
          newZ = maxZ - (cz' * (maxZ - minZ))
      in s\<lparr> uTime := elapsedTime,
            targetRotationSpeed := Some trs,
            currentRotationSpeed := Some crs',
            rotation_y := rotation_y s + crs',
            targetZoom := Some tz,
            currentZoom := Some cz',
            camera_z := newZ \<rparr>)"

subsection \<open>The vertex shader\<close>

text \<open>
  The position part of the GLSL vertex shader.  \<^verbatim>\<open>length\<close>, \<^verbatim>\<open>distance\<close> and
  \<^verbatim>\<open>normalize\<close> are the GLSL built-ins on \<^verbatim>\<open>vec3\<close>; \<^verbatim>\<open>normalize\<close> divides by the
  length, so its result for the zero vector is undefined (\<open>None\<close>).  The uniforms
  \<^verbatim>\<open>uTime\<close>, \<^verbatim>\<open>uMouse\<close>, \<^verbatim>\<open>uHover\<close> and the attribute \<^verbatim>\<open>aRandom\<close> are the
  arguments \<open>u_time\<close>, \<open>u_mouse\<close>, \<open>u_hover\<close> and \<open>a_random\<close>.
\<close>

definition vec3_add :: "vec3 \<Rightarrow> vec3 \<Rightarrow> vec3" where
  "vec3_add a b = \<lparr> vx = vx a + vx b, vy = vy a + vy b, vz = vz a + vz b \<rparr>"

definition vec3_sub :: "vec3 \<Rightarrow> vec3 \<Rightarrow> vec3" where
  "vec3_sub a b = \<lparr> vx = vx a - vx b, vy = vy a - vy b, vz = vz a - vz b \<rparr>"

definition vec3_scale :: "vec3 \<Rightarrow> real \<Rightarrow> vec3" where
  "vec3_scale a k = \<lparr> vx = vx a * k, vy = vy a * k, vz = vz a * k \<rparr>"

definition glsl_length :: "vec3 \<Rightarrow> real" where
  "glsl_length a = sqrt (vx a * vx a + vy a * vy a + vz a * vz a)"

definition glsl_distance :: "vec3 \<Rightarrow> vec3 \<Rightarrow> real" where
  "glsl_distance a b = glsl_length (vec3_sub a b)"

definition glsl_normalize :: "vec3 \<Rightarrow> vec3 option" where
  "glsl_normalize a =
     (if glsl_length a = 0 then None else Some (vec3_scale a (1 / glsl_length a)))"

text \<open>Step 1 of \<^verbatim>\<open>main\<close>: the idle jitter added to the base position.\<close>

definition noise :: "real \<Rightarrow> vec3 \<Rightarrow> vec3 \<Rightarrow> vec3" where
  "noise u_time a_random position =
     (let noiseFreq = 0.5;
          noiseAmp = 0.05
      in \<lparr> vx = vx position + sin (u_time * noiseFreq + vx a_random * 10.0) * noiseAmp,
           vy = vy position + cos (u_time * noiseFreq + vy a_random * 10.0) * noiseAmp,
           vz = vz position + sin (u_time * noiseFreq + vz a_random * 10.0) * noiseAmp \<rparr>)"

text \<open>Step 2 of \<^verbatim>\<open>main\<close>: the repulsion from \<open>u_mouse\<close>, applied to the jittered
  position.\<close>

definition repulsion :: "vec3 \<Rightarrow> real \<Rightarrow> vec3 \<Rightarrow> vec3 option" where
  "repulsion u_mouse u_hover pos =
     (let dist = glsl_distance pos u_mouse;
          radius = 4.0;
          force = 3.0
      in if dist < radius then
           (case glsl_normalize (vec3_sub pos u_mouse) of
              None \<Rightarrow> None
            | Some dir \<Rightarrow>
                (let influence = 1.0 - dist / radius
                 in Some (vec3_add pos
                      (vec3_scale (vec3_scale (vec3_scale dir influence) force) u_hover))))
         else Some pos)"

definition vertexShader_position :: "real \<Rightarrow> vec3 \<Rightarrow> real \<Rightarrow> vec3 \<Rightarrow> vec3 \<Rightarrow> vec3 option" where
  "vertexShader_position u_time u_mouse u_hover a_random position =
     repulsion u_mouse u_hover (noise u_time a_random position)"

subsection \<open>createParticles\<close>

text \<open>
  \<^verbatim>\<open>CONFIG\<close> (without the colour).  The legacy build takes the two particle counts
  from the window width.
\<close>

record config =
  particleCountSphere :: nat
  particleCountRing :: nat
  planetRadius :: real
  ringInnerRadius :: real
  ringOuterRadius :: real
  mouseRepulsionRadius :: real
  mouseRepulsionStrength :: real

definition CONFIG :: config where
  "CONFIG =
     \<lparr> particleCountSphere = 20000, particleCountRing = 15000, planetRadius = 5,
       ringInnerRadius = 7, ringOuterRadius = 12,
       mouseRepulsionRadius = 4.0, mouseRepulsionStrength = 3.0 \<rparr>"

definition CONFIG_legacy :: "bool \<Rightarrow> config" where
  "CONFIG_legacy isMobile =
     CONFIG\<lparr> particleCountSphere := (if isMobile then 7000 else 20000),
             particleCountRing := (if isMobile then 5000 else 15000) \<rparr>"

text \<open>
  The two typed arrays under construction and the number of calls made to
  \<^verbatim>\<open>Math.random\<close> so far.  The generator is a parameter: \<open>rnd k\<close> is what call number
  \<open>k\<close> returns.
\<close>

record buffers =
  positions :: "real list"
  randoms :: "real list"
  draws :: nat

text \<open>\<^verbatim>\<open>for (let i = 0; i < n; i++) body\<close>.\<close>

fun for_upto :: "nat \<Rightarrow> (nat \<Rightarrow> 'a \<Rightarrow> 'a) \<Rightarrow> 'a \<Rightarrow> 'a" where
  "for_upto 0 body s = s"
| "for_upto (Suc n) body s = body n (for_upto n body s)"

definition sphere_body :: "config \<Rightarrow> (nat \<Rightarrow> real) \<Rightarrow> nat \<Rightarrow> buffers \<Rightarrow> buffers" where
  "sphere_body cfg rnd i g =
     (let phi = arccos (- 1 + (2 * real i) / real (particleCountSphere cfg));
          theta = sqrt (real (particleCountSphere cfg) * pi) * phi;
          r = planetRadius cfg;
          x = r * cos theta * sin phi;
          y = r * sin theta * sin phi;
          z = r * cos phi;
          idx = i * 3;
          k = draws g
      in \<lparr> positions = (positions g)[idx := x, idx + 1 := y, idx + 2 := z],
           randoms = (randoms g)[idx := rnd k, idx + 1 := rnd (k + 1), idx + 2 := rnd (k + 2)],
           draws = k + 3 \<rparr>)"

definition ring_body :: "config \<Rightarrow> (nat \<Rightarrow> real) \<Rightarrow> nat \<Rightarrow> nat \<Rightarrow> buffers \<Rightarrow> buffers" where
  "ring_body cfg rnd ringOffset i g =
     (let k = draws g;
          angle = rnd k * pi * 2;
          innerR2 = ringInnerRadius cfg * ringInnerRadius cfg;
          outerR2 = ringOuterRadius cfg * ringOuterRadius cfg;
          r = sqrt (rnd (k + 1) * (outerR2 - innerR2) + innerR2);
          x = r * cos angle;
          y = (rnd (k + 2) - 0.5) * 0.2;
          z = r * sin angle;
          idx = ringOffset + i * 3
      in \<lparr> positions = (positions g)[idx := x, idx + 1 := y, idx + 2 := z],
           randoms = (randoms g)[idx := rnd (k + 3), idx + 1 := rnd (k + 4), idx + 2 := rnd (k + 5)],
           draws = k + 6 \<rparr>)"

definition createParticles :: "config \<Rightarrow> (nat \<Rightarrow> real) \<Rightarrow> buffers" where
  "createParticles cfg rnd =
     (let totalParticles = particleCountSphere cfg + particleCountRing cfg;
          g0 = \<lparr> positions = replicate (totalParticles * 3) 0,
                 randoms = replicate (totalParticles * 3) 0,
                 draws = 0 \<rparr>;
          g1 = for_upto (particleCountSphere cfg) (sphere_body cfg rnd) g0;
          ringOffset = particleCountSphere cfg * 3
      in for_upto (particleCountRing cfg) (ring_body cfg rnd ringOffset) g1)"

subsection \<open>The detection loops\<close>

text \<open>
  The landmark provider is outside the repository.  \<^verbatim>\<open>detectForVideo(video, ms)\<close> is a
  function of the video frame, named by the video's \<^verbatim>\<open>currentTime\<close>, and of the clock
  reading; it returns a result or throws.  \<^verbatim>\<open>handLandmarker\<close> is undefined (\<open>None\<close>)
  until the provider is created.
\<close>

type_synonym detector = "real \<Rightarrow> real \<Rightarrow> js_error + results"

text \<open>
  One run of \<^verbatim>\<open>predictWebcam\<close>: \<open>currentTime\<close> is \<^verbatim>\<open>videoElement.currentTime\<close> and
  \<open>startTimeMs\<close> is \<^verbatim>\<open>performance.now()\<close>.  Each call of \<^verbatim>\<open>detectForVideo\<close> is logged in
  \<open>detections\<close> with the time of the frame it was given.  The \<^verbatim>\<open>try\<close> block catches
  what the call and onResults throw; the state changes made before the throw stay.
\<close>

definition predictWebcam ::
  "detector option \<Rightarrow> connection list option \<Rightarrow> raycast \<Rightarrow> real \<Rightarrow> real \<Rightarrow> app_state \<Rightarrow> app_state" where
  "predictWebcam handLandmarker conns ray currentTime startTimeMs s =
     (if currentTime \<noteq> lastVideoTime s then
        (let s1 = s\<lparr> lastVideoTime := currentTime \<rparr>
         in case handLandmarker of
              None \<Rightarrow> s1
            | Some detectForVideo \<Rightarrow>
                (let s2 = s1\<lparr> detections := detections s1 @ [currentTime] \<rparr>
                 in case detectForVideo currentTime startTimeMs of
                      Inl err \<Rightarrow> s2
                    | Inr res \<Rightarrow> snd (onResults conns ray res s2)))
      else s)"

text \<open>The loop that \<^verbatim>\<open>requestAnimationFrame\<close> drives: one run per display frame, each
  with its readings of the video time and of the clock.\<close>

fun webcam_loop ::
  "detector option \<Rightarrow> connection list option \<Rightarrow> raycast \<Rightarrow> (real \<times> real) list \<Rightarrow> app_state \<Rightarrow> app_state" where
  "webcam_loop handLandmarker conns ray [] s = s"
| "webcam_loop handLandmarker conns ray ((currentTime, startTimeMs) # rest) s =
     webcam_loop handLandmarker conns ray rest
       (predictWebcam handLandmarker conns ray currentTime startTimeMs s)"

text \<open>
  The legacy build: \<^verbatim>\<open>sendFrame\<close> hands the current image to \<^verbatim>\<open>hands.send\<close> whenever
  the video has data (\<^verbatim>\<open>readyState >= 2\<close>), and the provider answers through the
  \<^verbatim>\<open>hands.onResults\<close> callback, which calls onResults; a rejected promise is logged.
  The image is named by the video time, the answer is applied within the run, and the
  legacy onResults, whose gesture logic is the same text, is \<open>onResults\<close> without a
  connection table.
\<close>

type_synonym legacy_detector = "real \<Rightarrow> js_error + results"

definition sendFrame ::
  "legacy_detector \<Rightarrow> raycast \<Rightarrow> nat \<Rightarrow> real \<Rightarrow> app_state \<Rightarrow> app_state" where
  "sendFrame hands_send ray readyState currentTime s =
     (if readyState \<ge> 2 then
        (let s1 = s\<lparr> detections := detections s @ [currentTime] \<rparr>
         in case hands_send currentTime of
              Inl e \<Rightarrow> s1
            | Inr res \<Rightarrow> snd (onResults None ray res s1))
      else s)"

section \<open>Scenarios and readings used to state the properties\<close>

text \<open>The values the loop body assigns for one hand, read off the assignments.\<close>

definition zoom_written :: "hand \<Rightarrow> real" where
  "zoom_written lms =
     (let currentDist = dist_lm (lms ! 0) (lms ! 12);
          refScale = dist_lm (lms ! 0) (lms ! 5);
          ratio = (if refScale > 0 then currentDist / refScale else 0)
      in max 0 (min 1 ((ratio - 0.8) / (1.8 - 0.8))))"

definition speed_written :: "hand \<Rightarrow> real" where
  "speed_written lms =
     (if lm_x (lms ! 8) < 0.2 then - 0.05 else if lm_x (lms ! 8) > 0.8 then 0.05 else 0.002)"

text \<open>A hand of 21 landmarks on the x-axis, used to run the definitions: the wrist at
  the origin, the index knuckle at \<open>(1/2, 0)\<close>, the middle fingertip at \<open>(mx, 0)\<close> and
  the index fingertip at \<open>(ix, 1/2)\<close>.\<close>

definition sample_hand :: "real \<Rightarrow> real \<Rightarrow> hand" where
  "sample_hand mx ix =
     (replicate 21 \<lparr> lm_x = 0, lm_y = 0 \<rparr>)
       [5 := \<lparr> lm_x = 1/2, lm_y = 0 \<rparr>, 8 := \<lparr> lm_x = ix, lm_y = 1/2 \<rparr>,
        12 := \<lparr> lm_x = mx, lm_y = 0 \<rparr>]"

text \<open>Successive render ticks with no input event in between; the list holds the
  clock reading of each tick.\<close>

fun run_ticks :: "real list \<Rightarrow> app_state \<Rightarrow> app_state" where
  "run_ticks [] s = s"
| "run_ticks (t # ts) s = run_ticks ts (animate t s)"

text \<open>The smoothed values after a run of ticks, as numbers.\<close>

definition zoom_after :: "real list \<Rightarrow> app_state \<Rightarrow> real" where
  "zoom_after ts s = or_default (currentZoom (run_ticks ts s)) 0"

definition speed_after :: "real list \<Rightarrow> app_state \<Rightarrow> real" where
  "speed_after ts s = or_default (currentRotationSpeed (run_ticks ts s)) 0.002"

subsection \<open>A closing hand\<close>

text \<open>
  The scenario of the end-to-end property: the hand closes linearly from ratio 1.8 to
  ratio 0.8 over 50 ticks.  Tick \<open>k\<close> (from 1 to 50) first delivers a frame whose
  landmarks have ratio \<open>1.8 - k / 50\<close> to onResults and then runs animate.
\<close>

definition miss :: raycast where
  "miss x y = None"

definition closing_frame :: "nat \<Rightarrow> results" where
  "closing_frame k = \<lparr> landmarks = Some [sample_hand ((1.8 - real k / 50) / 2) (1/2)] \<rparr>"

fun closing_hand :: "raycast \<Rightarrow> nat \<Rightarrow> app_state \<Rightarrow> app_state" where
  "closing_hand ray 0 s = s"
| "closing_hand ray (Suc k) s =
     animate (real (Suc k) / 60)
       (snd (onResults None ray (closing_frame (Suc k)) (closing_hand ray k s)))"

text \<open>The displacement the repulsion step adds to a (jittered) position, and its
  magnitude; undefined where the shader's result is.\<close>

definition displacement :: "vec3 \<Rightarrow> real \<Rightarrow> vec3 \<Rightarrow> vec3 option" where
  "displacement u_mouse u_hover pos =
     map_option (\<lambda>q. vec3_sub q pos) (repulsion u_mouse u_hover pos)"

definition displacement_length :: "vec3 \<Rightarrow> real \<Rightarrow> vec3 \<Rightarrow> real option" where
  "displacement_length u_mouse u_hover pos =
     map_option glsl_length (displacement u_mouse u_hover pos)"

text \<open>The coordinates the two loop bodies compute, read off their assignments: for
  sphere particle \<open>i\<close>, and for a ring particle from its three draws.\<close>

definition sphere_point :: "config \<Rightarrow> nat \<Rightarrow> real \<times> real \<times> real" where
  "sphere_point cfg i =
     (let phi = arccos (- 1 + (2 * real i) / real (particleCountSphere cfg));
          theta = sqrt (real (particleCountSphere cfg) * pi) * phi;
          r = planetRadius cfg
      in (r * cos theta * sin phi, r * sin theta * sin phi, r * cos phi))"

definition ring_point :: "config \<Rightarrow> real \<Rightarrow> real \<Rightarrow> real \<Rightarrow> real \<times> real \<times> real" where
  "ring_point cfg u1 u2 u3 =
     (let angle = u1 * pi * 2;
          innerR2 = ringInnerRadius cfg * ringInnerRadius cfg;
          outerR2 = ringOuterRadius cfg * ringOuterRadius cfg;
          r = sqrt (u2 * (outerR2 - innerR2) + innerR2)
      in (r * cos angle, (u3 - 0.5) * 0.2, r * sin angle))"

text \<open>A provider that finds no hand in any frame.\<close>

definition no_hands :: legacy_detector where
  "no_hands t = Inr \<lparr> landmarks = Some [] \<rparr>"

definition no_hands_video :: detector where
  "no_hands_video t ms = Inr \<lparr> landmarks = Some [] \<rparr>"

text \<open>A provider that finds the given hand in every frame.\<close>

definition one_hand_video :: "hand \<Rightarrow> detector" where
  "one_hand_video lms t ms = Inr \<lparr> landmarks = Some [lms] \<rparr>"

text \<open>With video times that never go back, every logged detection is of a time up to
  the last processed one, and no time is logged twice.\<close>

definition log_ok :: "app_state \<Rightarrow> bool" where
  "log_ok s = (distinct (detections s) \<and> list_all (\<lambda>t. t \<le> lastVideoTime s) (detections s))"

section \<open>Properties\<close>

subsection \<open>Facts about onResults\<close>

lemma updateInteraction_eq:
  "updateInteraction ray x y s =
     s\<lparr> mouse := (x, y), uMouse := intersectPlane (ray x y) Vector3, uHover := 1 \<rparr>"
  by (simp add: updateInteraction_def)

lemma hypot_sqrt: "hypot a b = sqrt (a\<^sup>2 + b\<^sup>2)"
  by (simp add: hypot_def power2_eq_square)

lemma hypot_nonneg: "0 \<le> hypot a b"
  by (simp add: hypot_def)

lemma hypot_axis: "hypot a 0 = \<bar>a\<bar>"
  by (simp add: hypot_def)

lemma onResults_hand_ok:
  assumes "12 < length lms" and "drawHand conns lms"
  shows "onResults_hand conns ray lms s =
           (None, (updateInteraction ray (lm_x (lms ! 8) * 2 - 1) (- (lm_y (lms ! 8) * 2 - 1)) s)
                    \<lparr> targetZoom := Some (zoom_written lms),
                      targetRotationSpeed := Some (speed_written lms) \<rparr>)"
proof -
  have "lms \<noteq> []" "5 < length lms" "8 < length lms"
    using assms(1) by auto
  then show ?thesis
    using assms
    by (simp add: onResults_hand_def index_at_def zoom_written_def speed_written_def Let_def)
qed

lemma onResults_loop_ok:
  assumes "hs \<noteq> []" and "\<forall>lms \<in> set hs. 12 < length lms \<and> drawHand conns lms"
  shows "fst (onResults_loop conns ray hs s) = None
         \<and> targetZoom (snd (onResults_loop conns ray hs s)) = Some (zoom_written (last hs))
         \<and> targetRotationSpeed (snd (onResults_loop conns ray hs s)) = Some (speed_written (last hs))
         \<and> uHover (snd (onResults_loop conns ray hs s)) = 1"
  using assms
proof (induction hs arbitrary: s)
  case Nil
  then show ?case by simp
next
  case (Cons lms rest)
  have ok: "12 < length lms" "drawHand conns lms"
    using Cons.prems by simp_all
  show ?case
  proof (cases "rest = []")
    case True
    then show ?thesis
      by (simp add: onResults_hand_ok [OF ok] updateInteraction_eq)
  next
    case False
    then show ?thesis
      using Cons.IH [of "snd (onResults_hand conns ray lms s)"] Cons.prems
      by (simp add: onResults_hand_ok [OF ok])
  qed
qed

lemma onResults_hands:
  assumes "landmarks res = Some hs" and "hs \<noteq> []"
    and "\<forall>lms \<in> set hs. 12 < length lms \<and> drawHand conns lms"
  shows "fst (onResults conns ray res s) = None"
    and "targetZoom (snd (onResults conns ray res s)) = Some (zoom_written (last hs))"
    and "targetRotationSpeed (snd (onResults conns ray res s)) = Some (speed_written (last hs))"
    and "uHover (snd (onResults conns ray res s)) = 1"
  using onResults_loop_ok [OF assms(2,3), of ray s] assms(1,2)
  by (simp_all add: onResults_def)

lemma sample_hand_length: "length (sample_hand mx ix) = 21"
  by (simp add: sample_hand_def)

lemma sample_hand_nth:
  "sample_hand mx ix ! 0 = \<lparr> lm_x = 0, lm_y = 0 \<rparr>"
  "sample_hand mx ix ! 5 = \<lparr> lm_x = 1/2, lm_y = 0 \<rparr>"
  "sample_hand mx ix ! 8 = \<lparr> lm_x = ix, lm_y = 1/2 \<rparr>"
  "sample_hand mx ix ! 12 = \<lparr> lm_x = mx, lm_y = 0 \<rparr>"
  by (simp_all add: sample_hand_def)

lemma sample_hand_drawHand: "drawHand None (sample_hand mx ix)"
  by (simp add: drawHand_def)

text \<open>On the library's table \<^verbatim>\<open>drawHand\<close> throws at the first connection, whatever the
  hand, and so does the loop body, before any state is written.\<close>

lemma drawHand_HAND_CONNECTIONS: "\<not> drawHand (Some HAND_CONNECTIONS) lms"
  by (simp add: drawHand_def HAND_CONNECTIONS_def connection_at_def landmark_at_def)

lemma onResults_HAND_CONNECTIONS:
  "onResults (Some HAND_CONNECTIONS) ray \<lparr> landmarks = Some (lms # rest) \<rparr> s = (Some TypeError, s)"
  by (simp add: onResults_def onResults_hand_def drawHand_HAND_CONNECTIONS)

lemma predictWebcam_HAND_CONNECTIONS:
  "predictWebcam (Some (one_hand_video lms)) (Some HAND_CONNECTIONS) ray t ms s
     = (if t \<noteq> lastVideoTime s
        then s\<lparr> lastVideoTime := t, detections := detections s @ [t] \<rparr> else s)"
  by (simp add: predictWebcam_def one_hand_video_def onResults_HAND_CONNECTIONS Let_def)

subsection \<open>Claims about onResults and updateInteraction\<close>

text \<open>
  When \<^verbatim>\<open>drawHand\<close> completes on every hand of a frame (no table, as on the legacy
  build's path, or a table of index pairs within the hand), the zoom signal left in
  \<open>targetZoom\<close> is \<open>clamp ((d1 / d2 - 0.8) / (1.8 - 0.8)) 0 1\<close>, where \<open>d1\<close> is the planar
  distance from the wrist (landmark 0) to the middle fingertip (12) and \<open>d2\<close> the
  distance from the wrist to the index knuckle (5) of the hand processed last, the ratio
  being taken as 0 when \<open>d2 = 0\<close>.
\<close>

lemma zoom_signal_when_drawn:
  assumes "landmarks res = Some hs" and "hs \<noteq> []"
    and "\<forall>lms \<in> set hs. 12 < length lms \<and> drawHand conns lms"
  shows "let w = last hs ! 0; m = last hs ! 12; c = last hs ! 5;
             d1 = sqrt ((lm_x w - lm_x m)\<^sup>2 + (lm_y w - lm_y m)\<^sup>2);
             d2 = sqrt ((lm_x w - lm_x c)\<^sup>2 + (lm_y w - lm_y c)\<^sup>2);
             ratio = (if d2 = 0 then 0 else d1 / d2);
             tz = targetZoom (snd (onResults conns ray res s))
         in fst (onResults conns ray res s) = None
            \<and> tz = Some (max 0 (min 1 ((ratio - 0.8) / (1.8 - 0.8))))
            \<and> (ratio = 0.8 \<longrightarrow> tz = Some 0)
            \<and> (ratio = 1.8 \<longrightarrow> tz = Some 1)
            \<and> (ratio = 1.3 \<longrightarrow> tz = Some 0.5)
            \<and> (ratio \<le> 0.8 \<longrightarrow> tz = Some 0)
            \<and> (1.8 \<le> ratio \<longrightarrow> tz = Some 1)
            \<and> (d2 = 0 \<longrightarrow> tz = Some 0)"
proof -
  define w m c where "w = last hs ! 0" and "m = last hs ! 12" and "c = last hs ! 5"
  define d1 where "d1 = sqrt ((lm_x w - lm_x m)\<^sup>2 + (lm_y w - lm_y m)\<^sup>2)"
  define d2 where "d2 = sqrt ((lm_x w - lm_x c)\<^sup>2 + (lm_y w - lm_y c)\<^sup>2)"
  define ratio where "ratio = (if d2 = 0 then 0 else d1 / d2)"
  define tz where "tz = targetZoom (snd (onResults conns ray res s))"
  have d2_nonneg: "0 \<le> d2"
    by (simp add: d2_def)
  have guard: "(if d2 > 0 then d1 / d2 else 0) = ratio"
    using d2_nonneg by (auto simp: ratio_def)
  have dists: "dist_lm (last hs ! 0) (last hs ! 12) = d1" "dist_lm (last hs ! 0) (last hs ! 5) = d2"
    by (simp_all add: dist_lm_def hypot_sqrt d1_def d2_def w_def m_def c_def)
  have written: "zoom_written (last hs) = max 0 (min 1 ((ratio - 0.8) / (1.8 - 0.8)))"
    unfolding zoom_written_def Let_def dists guard ..
  have noerr: "fst (onResults conns ray res s) = None"
    by (rule onResults_hands(1) [OF assms])
  have tz: "tz = Some (max 0 (min 1 ((ratio - 0.8) / (1.8 - 0.8))))"
    unfolding tz_def using onResults_hands(2) [OF assms, of ray s] written by simp
  have "ratio = 0.8 \<longrightarrow> tz = Some 0" "ratio = 1.8 \<longrightarrow> tz = Some 1"
    "ratio = 1.3 \<longrightarrow> tz = Some 0.5" "ratio \<le> 0.8 \<longrightarrow> tz = Some 0"
    "1.8 \<le> ratio \<longrightarrow> tz = Some 1" "d2 = 0 \<longrightarrow> tz = Some 0"
    using tz by (auto simp: ratio_def max_def min_def)
  with noerr tz show ?thesis
    unfolding Let_def w_def m_def c_def d1_def d2_def ratio_def tz_def by blast
qed

lemma sample_frame_without_table:
  "onResults None ray \<lparr> landmarks = Some [sample_hand mx ix] \<rparr> s
     = (None, (updateInteraction ray (ix * 2 - 1) (- (1/2 * 2 - 1)) s)
                \<lparr> targetZoom := Some (zoom_written (sample_hand mx ix)),
                  targetRotationSpeed := Some (speed_written (sample_hand mx ix)) \<rparr>)"
  by (simp add: onResults_def onResults_hand_ok sample_hand_length sample_hand_drawHand
      sample_hand_nth)

lemma sample_hand_zoom_written: "zoom_written (sample_hand (13/20) ix) = 1/2"
  by (simp add: zoom_written_def sample_hand_nth dist_lm_def hypot_axis)

lemma sample_hand_speed_written: "speed_written (sample_hand mx (1/10)) = - 0.05"
  by (simp add: speed_written_def sample_hand_nth)

text \<open>
  C1.  The property asks that every landmark frame leave the clamped ratio in
  \<open>targetZoom\<close>.  \<^verbatim>\<open>script.js\<close> does not get that far: the loop body calls \<^verbatim>\<open>drawHand\<close>
  first, which reads \<^verbatim>\<open>connection[0]\<close> of the provider's \<^verbatim>\<open>{start, end}\<close> objects and
  throws on the first connection.  Every frame with a hand ends in a TypeError with
  the state as it was, so \<open>targetZoom\<close> keeps its value; for the sample hand of ratio
  1.3 it stays undefined where the property asks for 0.5, and \<^verbatim>\<open>predictWebcam\<close> only
  records the frame.  The same gesture lines do write 0.5 when no table is walked, as
  on the legacy build's path.
\<close>

theorem C1_zoom_not_written:
  "onResults (Some HAND_CONNECTIONS) ray \<lparr> landmarks = Some (lms # rest) \<rparr> s = (Some TypeError, s)
   \<and> targetZoom (snd (onResults (Some HAND_CONNECTIONS) ray \<lparr> landmarks = Some (lms # rest) \<rparr> s))
       = targetZoom s
   \<and> targetZoom (snd (onResults (Some HAND_CONNECTIONS) miss
         \<lparr> landmarks = Some [sample_hand (13/20) (1/2)] \<rparr> initial_state)) = None
   \<and> targetZoom (predictWebcam (Some (one_hand_video (sample_hand (13/20) (1/2))))
         (Some HAND_CONNECTIONS) miss 0 0 initial_state) = None
   \<and> targetZoom (snd (onResults None miss
         \<lparr> landmarks = Some [sample_hand (13/20) (1/2)] \<rparr> initial_state)) = Some (1/2)"
  by (simp add: onResults_HAND_CONNECTIONS predictWebcam_HAND_CONNECTIONS
      sample_frame_without_table sample_hand_zoom_written initial_state_def)

text \<open>
  When \<^verbatim>\<open>drawHand\<close> completes on every hand of a frame, the rotation target left by the
  frame is a three-zone function of the x-coordinate of the index fingertip (landmark
  8) of the hand processed last: \<open>- 0.05\<close> below 0.2, \<open>0.05\<close> above 0.8 and \<open>0.002\<close>
  otherwise; the two boundaries 0.2 and 0.8 belong to the middle zone.
\<close>

lemma rotation_zones_when_drawn:
  assumes "landmarks res = Some hs" and "hs \<noteq> []"
    and "\<forall>lms \<in> set hs. 12 < length lms \<and> drawHand conns lms"
  shows "let x = lm_x (last hs ! 8);
             v = targetRotationSpeed (snd (onResults conns ray res s))
         in (x < 0.2 \<longrightarrow> v = Some (- 0.05))
            \<and> (0.8 < x \<longrightarrow> v = Some 0.05)
            \<and> (0.2 \<le> x \<and> x \<le> 0.8 \<longrightarrow> v = Some 0.002)
            \<and> (x = 0.2 \<longrightarrow> v = Some 0.002)
            \<and> (x = 0.8 \<longrightarrow> v = Some 0.002)"
  using onResults_hands(3) [OF assms, of ray s]
  by (simp add: speed_written_def Let_def)

text \<open>
  C2.  The property asks that every landmark frame set \<open>targetRotationSpeed\<close> from the
  zone of the index fingertip.  In \<^verbatim>\<open>script.js\<close> the throw of \<^verbatim>\<open>drawHand\<close> on the
  provider's \<^verbatim>\<open>{start, end}\<close> objects comes before those lines: a frame with a hand
  leaves \<open>targetRotationSpeed\<close> as it was; for the sample hand with the fingertip at
  \<open>x = 0.1\<close> it stays undefined where the property asks for \<open>- 0.05\<close>.  The same
  lines do write \<open>- 0.05\<close> when no table is walked, as on the legacy build's path.
\<close>

theorem C2_rotation_not_written:
  "onResults (Some HAND_CONNECTIONS) ray \<lparr> landmarks = Some (lms # rest) \<rparr> s = (Some TypeError, s)
   \<and> targetRotationSpeed (snd (onResults (Some HAND_CONNECTIONS) ray
         \<lparr> landmarks = Some (lms # rest) \<rparr> s)) = targetRotationSpeed s
   \<and> targetRotationSpeed (snd (onResults (Some HAND_CONNECTIONS) miss
         \<lparr> landmarks = Some [sample_hand 1 (1/10)] \<rparr> initial_state)) = None
   \<and> targetRotationSpeed (predictWebcam (Some (one_hand_video (sample_hand 1 (1/10))))
         (Some HAND_CONNECTIONS) miss 0 0 initial_state) = None
   \<and> targetRotationSpeed (snd (onResults None miss
         \<lparr> landmarks = Some [sample_hand 1 (1/10)] \<rparr> initial_state)) = Some (- 0.05)"
  by (simp add: onResults_HAND_CONNECTIONS predictWebcam_HAND_CONNECTIONS
      sample_frame_without_table sample_hand_speed_written initial_state_def)

text \<open>
  C6.  A frame with no hand (no landmark array, or an empty one) sets \<open>uHover\<close> to 0 and
  \<open>targetRotationSpeed\<close> to 0.002 and changes nothing else: \<open>targetZoom\<close> keeps its
  value.
\<close>

theorem C6_no_hand:
  assumes "landmarks res = None \<or> landmarks res = Some []"
  shows "onResults conns ray res s = (None, s\<lparr> uHover := 0, targetRotationSpeed := Some 0.002 \<rparr>)
         \<and> uHover (snd (onResults conns ray res s)) = 0
         \<and> targetRotationSpeed (snd (onResults conns ray res s)) = Some 0.002
         \<and> targetZoom (snd (onResults conns ray res s)) = targetZoom s"
  using assms by (auto simp: onResults_def)

theorem C6_no_hand_witness:
  "(landmarks \<lparr> landmarks = Some [] \<rparr> = None \<or> landmarks \<lparr> landmarks = Some [] \<rparr> = Some [])
   \<and> onResults None (\<lambda>x y. None) \<lparr> landmarks = Some [] \<rparr>
        (initial_state\<lparr> uHover := 1, targetZoom := Some (1/2) \<rparr>)
       = (None, initial_state\<lparr> uHover := 0, targetZoom := Some (1/2),
                               targetRotationSpeed := Some 0.002 \<rparr>)"
  using C6_no_hand [of "\<lparr> landmarks = Some [] \<rparr>" None "\<lambda>x y. None"
      "initial_state\<lparr> uHover := 1, targetZoom := Some (1/2) \<rparr>"]
  by (simp add: initial_state_def)

text \<open>
  C10.  The branch of updateInteraction that sets \<open>uHover\<close> to 0 is never taken: every
  call, from a landmark frame, the mouse or a touch, sets \<open>uHover\<close> to 1 and copies the
  target vector into \<open>uMouse\<close>; when the ray misses the plane the vector copied is the
  fresh zero vector.
\<close>

theorem C10_hover_branch_unreachable:
  "updateInteraction ray x y s =
     s\<lparr> mouse := (x, y),
        uMouse := (case ray x y of None \<Rightarrow> \<lparr> vx = 0, vy = 0, vz = 0 \<rparr> | Some p \<Rightarrow> p),
        uHover := 1 \<rparr>
   \<and> uHover (updateInteraction ray x y s) = 1
   \<and> uHover (updateInteraction (\<lambda>x y. None) x y s) = 1
   \<and> uMouse (updateInteraction (\<lambda>x y. None) x y s) = \<lparr> vx = 0, vy = 0, vz = 0 \<rparr>
   \<and> uHover (mousemove ray cx cy iw ih s) = 1
   \<and> uHover (onTouch ray (t # ts) iw ih s) = 1
   \<and> uHover (snd (onResults None ray \<lparr> landmarks = Some [sample_hand mx ix] \<rparr> s)) = 1"
  by (simp add: updateInteraction_eq intersectPlane_def Vector3_def mousemove_def onTouch_def
      handleInput_def Let_def onResults_def onResults_hand_ok sample_hand_length sample_hand_drawHand)

subsection \<open>Smoothing\<close>

lemma animate_zoom:
  assumes "targetZoom s = Some tz" and "currentZoom s = Some cz"
  shows "targetZoom (animate t s) = Some tz"
    and "currentZoom (animate t s) = Some (cz + (tz - cz) * 0.1)"
    and "camera_z (animate t s) = 25 - (cz + (tz - cz) * 0.1) * (25 - 8)"
  using assms by (simp_all add: animate_def or_default_def Let_def)

lemma animate_rotation:
  assumes "targetRotationSpeed s = Some tr" and "currentRotationSpeed s = Some cr"
  shows "targetRotationSpeed (animate t s) = Some tr"
    and "currentRotationSpeed (animate t s) = Some (cr + (tr - cr) * 0.05)"
  using assms by (simp_all add: animate_def or_default_def Let_def split: option.splits)

lemma run_ticks_zoom:
  assumes "targetZoom s = Some tz" and "currentZoom s = Some cz"
  shows "targetZoom (run_ticks ts s) = Some tz
         \<and> currentZoom (run_ticks ts s) = Some (tz - (tz - cz) * (9/10) ^ length ts)"
  using assms
proof (induction ts arbitrary: s cz)
  case Nil
  then show ?case by simp
next
  case (Cons t ts)
  have "targetZoom (animate t s) = Some tz"
    and "currentZoom (animate t s) = Some (cz + (tz - cz) * 0.1)"
    using animate_zoom [OF Cons.prems] by simp_all
  from Cons.IH [OF this]
  have IH: "targetZoom (run_ticks ts (animate t s)) = Some tz
      \<and> currentZoom (run_ticks ts (animate t s))
           = Some (tz - (tz - (cz + (tz - cz) * 0.1)) * (9/10) ^ length ts)" .
  have alg: "tz - (tz - (cz + (tz - cz) * 0.1)) * (9/10) ^ length ts
      = tz - (tz - cz) * (9/10) ^ length (t # ts)"
    by (simp add: field_simps)
  show ?case
    using IH unfolding alg run_ticks.simps .
qed

lemma run_ticks_rotation:
  assumes "targetRotationSpeed s = Some tr" and "currentRotationSpeed s = Some cr"
  shows "targetRotationSpeed (run_ticks ts s) = Some tr
         \<and> currentRotationSpeed (run_ticks ts s) = Some (tr - (tr - cr) * (19/20) ^ length ts)"
  using assms
proof (induction ts arbitrary: s cr)
  case Nil
  then show ?case by simp
next
  case (Cons t ts)
  have "targetRotationSpeed (animate t s) = Some tr"
    and "currentRotationSpeed (animate t s) = Some (cr + (tr - cr) * 0.05)"
    using animate_rotation [OF Cons.prems] by simp_all
  from Cons.IH [OF this]
  have IH: "targetRotationSpeed (run_ticks ts (animate t s)) = Some tr
      \<and> currentRotationSpeed (run_ticks ts (animate t s))
           = Some (tr - (tr - (cr + (tr - cr) * 0.05)) * (19/20) ^ length ts)" .
  have alg: "tr - (tr - (cr + (tr - cr) * 0.05)) * (19/20) ^ length ts
      = tr - (tr - cr) * (19/20) ^ length (t # ts)"
    by (simp add: field_simps)
  show ?case
    using IH unfolding alg run_ticks.simps .
qed

text \<open>The arithmetic of an exponential approach \<open>t - (t - c) * q ^ n\<close> with
  \<open>0 < q < 1\<close>.\<close>

lemma approach_between:
  fixes t c q lo hi :: real
  assumes "0 \<le> q" "q \<le> 1" "lo \<le> t" "t \<le> hi" "lo \<le> c" "c \<le> hi"
  shows "lo \<le> t - (t - c) * q ^ n \<and> t - (t - c) * q ^ n \<le> hi"
proof -
  have p: "0 \<le> q ^ n" "q ^ n \<le> 1"
    using assms(1,2) by (simp_all add: power_le_one)
  have eq: "t - (t - c) * q ^ n = (1 - q ^ n) * t + q ^ n * c"
    by (simp add: algebra_simps)
  have "lo = (1 - q ^ n) * lo + q ^ n * lo"
    by (simp add: algebra_simps)
  also have "\<dots> \<le> (1 - q ^ n) * t + q ^ n * c"
    using p assms(3,5) by (intro add_mono mult_left_mono) simp_all
  finally have low: "lo \<le> t - (t - c) * q ^ n"
    using eq by simp
  have "(1 - q ^ n) * t + q ^ n * c \<le> (1 - q ^ n) * hi + q ^ n * hi"
    using p assms(4,6) by (intro add_mono mult_left_mono) simp_all
  also have "\<dots> = hi"
    by (simp add: algebra_simps)
  finally have "t - (t - c) * q ^ n \<le> hi"
    using eq by simp
  with low show ?thesis ..
qed

lemma approach_limit:
  fixes t c q :: real
  assumes "0 \<le> q" "q < 1"
  shows "(\<lambda>n. t - (t - c) * q ^ n) \<longlonglongrightarrow> t"
proof -
  have "(\<lambda>n. q ^ n) \<longlonglongrightarrow> 0"
    by (rule LIMSEQ_realpow_zero [OF assms])
  then have "(\<lambda>n. t - (t - c) * q ^ n) \<longlonglongrightarrow> t - (t - c) * 0"
    by (rule tendsto_diff [OF tendsto_const tendsto_mult [OF tendsto_const]])
  then show ?thesis by simp
qed

lemma zoom_after_eq:
  assumes "targetZoom s = Some tz" and "currentZoom s = Some cz"
  shows "zoom_after ts s = tz - (tz - cz) * (9/10) ^ length ts"
  using run_ticks_zoom [OF assms, of ts] by (simp add: zoom_after_def or_default_def)

lemma speed_after_eq:
  assumes "targetRotationSpeed s = Some tr" and "currentRotationSpeed s = Some cr"
  shows "speed_after ts s = tr - (tr - cr) * (19/20) ^ length ts"
  using run_ticks_rotation [OF assms, of ts] by (simp add: speed_after_def or_default_def)

lemma approach_step:
  fixes t c q :: real
  assumes "0 \<le> q" "q \<le> 1"
  shows "c \<le> t \<Longrightarrow> t - (t - c) * q ^ n \<le> t - (t - c) * q ^ Suc n \<and> t - (t - c) * q ^ Suc n \<le> t"
    and "t \<le> c \<Longrightarrow> t \<le> t - (t - c) * q ^ Suc n \<and> t - (t - c) * q ^ Suc n \<le> t - (t - c) * q ^ n"
proof -
  have p: "0 \<le> q ^ Suc n" "q ^ Suc n \<le> q ^ n"
    using assms by (simp_all add: mult_left_le_one_le)
  show "t - (t - c) * q ^ n \<le> t - (t - c) * q ^ Suc n \<and> t - (t - c) * q ^ Suc n \<le> t" if "c \<le> t"
  proof -
    have "(t - c) * q ^ Suc n \<le> (t - c) * q ^ n" "0 \<le> (t - c) * q ^ Suc n"
      using that p by (simp_all add: mult_left_mono)
    then show ?thesis by simp
  qed
  show "t \<le> t - (t - c) * q ^ Suc n \<and> t - (t - c) * q ^ Suc n \<le> t - (t - c) * q ^ n" if "t \<le> c"
  proof -
    have "(c - t) * q ^ Suc n \<le> (c - t) * q ^ n" "0 \<le> (c - t) * q ^ Suc n"
      using that p by (simp_all add: mult_left_mono)
    then show ?thesis by (simp add: algebra_simps)
  qed
qed

text \<open>
  C3.  With the targets held (no input between ticks) the update
  \<open>current += (target - current) * alpha\<close> gives, after \<open>n\<close> ticks,
  \<open>target - (target - current) * (1 - alpha) ^ n\<close>: the distance to the target shrinks by
  the factor \<open>1 - alpha\<close> each tick and never changes sign, so the value moves
  monotonically toward the target, never passes it, stays in every interval that holds
  both the start and the target, and converges to the target.  From 0 toward 1 with
  \<open>alpha = 0.1\<close> the value after \<open>n\<close> ticks is \<open>1 - 0.9 ^ n\<close>, strictly increasing and
  strictly below 1.  This holds for the zoom (\<open>alpha = 0.1\<close>) and for the rotation speed
  (\<open>alpha = 0.05\<close>).
\<close>

theorem C3_smoothing:
  assumes "targetZoom s = Some tz" and "currentZoom s = Some cz"
    and "targetRotationSpeed s = Some tr" and "currentRotationSpeed s = Some cr"
  shows "currentZoom (run_ticks ts s) = Some (tz - (tz - cz) * (9/10) ^ length ts)
     \<and> currentRotationSpeed (run_ticks ts s) = Some (tr - (tr - cr) * (19/20) ^ length ts)
     \<and> targetZoom (run_ticks ts s) = Some tz
     \<and> targetRotationSpeed (run_ticks ts s) = Some tr
     \<and> (tz = 1 \<and> cz = 0 \<longrightarrow>
           zoom_after ts s = 1 - (9/10) ^ length ts
           \<and> zoom_after ts s < zoom_after (ts @ [t]) s
           \<and> zoom_after ts s < 1)
     \<and> (cz \<le> tz \<longrightarrow> zoom_after ts s \<le> zoom_after (ts @ [t]) s \<and> zoom_after (ts @ [t]) s \<le> tz)
     \<and> (tz \<le> cz \<longrightarrow> tz \<le> zoom_after (ts @ [t]) s \<and> zoom_after (ts @ [t]) s \<le> zoom_after ts s)
     \<and> (cr \<le> tr \<longrightarrow> speed_after ts s \<le> speed_after (ts @ [t]) s \<and> speed_after (ts @ [t]) s \<le> tr)
     \<and> (tr \<le> cr \<longrightarrow> tr \<le> speed_after (ts @ [t]) s \<and> speed_after (ts @ [t]) s \<le> speed_after ts s)
     \<and> (lo \<le> tz \<and> tz \<le> hi \<and> lo \<le> cz \<and> cz \<le> hi \<longrightarrow> lo \<le> zoom_after ts s \<and> zoom_after ts s \<le> hi)
     \<and> (lo \<le> tr \<and> tr \<le> hi \<and> lo \<le> cr \<and> cr \<le> hi \<longrightarrow> lo \<le> speed_after ts s \<and> speed_after ts s \<le> hi)
     \<and> (\<lambda>n. zoom_after (map clock [0..<n]) s) \<longlonglongrightarrow> tz
     \<and> (\<lambda>n. speed_after (map clock [0..<n]) s) \<longlonglongrightarrow> tr"
proof -
  note z = zoom_after_eq [OF assms(1,2)]
  note r = speed_after_eq [OF assms(3,4)]
  have closed: "currentZoom (run_ticks ts s) = Some (tz - (tz - cz) * (9/10) ^ length ts)"
      "targetZoom (run_ticks ts s) = Some tz"
    using run_ticks_zoom [OF assms(1,2), of ts] by simp_all
  have closed_r: "currentRotationSpeed (run_ticks ts s) = Some (tr - (tr - cr) * (19/20) ^ length ts)"
      "targetRotationSpeed (run_ticks ts s) = Some tr"
    using run_ticks_rotation [OF assms(3,4), of ts] by simp_all
  have unit: "tz = 1 \<and> cz = 0 \<longrightarrow>
           zoom_after ts s = 1 - (9/10) ^ length ts
           \<and> zoom_after ts s < zoom_after (ts @ [t]) s
           \<and> zoom_after ts s < 1"
  proof
    assume "tz = 1 \<and> cz = 0"
    moreover have "(0::real) < (9/10) ^ length ts"
      by simp
    ultimately show "zoom_after ts s = 1 - (9/10) ^ length ts
           \<and> zoom_after ts s < zoom_after (ts @ [t]) s
           \<and> zoom_after ts s < 1"
      by (simp add: z)
  qed
  have mono_z: "cz \<le> tz \<longrightarrow> zoom_after ts s \<le> zoom_after (ts @ [t]) s \<and> zoom_after (ts @ [t]) s \<le> tz"
    "tz \<le> cz \<longrightarrow> tz \<le> zoom_after (ts @ [t]) s \<and> zoom_after (ts @ [t]) s \<le> zoom_after ts s"
    using approach_step [where q = "9/10" and c = cz and t = tz and n = "length ts"]
    by (simp_all add: z)
  have mono_r: "cr \<le> tr \<longrightarrow> speed_after ts s \<le> speed_after (ts @ [t]) s \<and> speed_after (ts @ [t]) s \<le> tr"
    "tr \<le> cr \<longrightarrow> tr \<le> speed_after (ts @ [t]) s \<and> speed_after (ts @ [t]) s \<le> speed_after ts s"
    using approach_step [where q = "19/20" and c = cr and t = tr and n = "length ts"]
    by (simp_all add: r)
  have box_z: "lo \<le> tz \<and> tz \<le> hi \<and> lo \<le> cz \<and> cz \<le> hi \<longrightarrow> lo \<le> zoom_after ts s \<and> zoom_after ts s \<le> hi"
    using approach_between [of "9/10" lo tz hi cz "length ts"] by (simp add: z)
  have box_r: "lo \<le> tr \<and> tr \<le> hi \<and> lo \<le> cr \<and> cr \<le> hi \<longrightarrow> lo \<le> speed_after ts s \<and> speed_after ts s \<le> hi"
    using approach_between [of "19/20" lo tr hi cr "length ts"] by (simp add: r)
  have lim_z: "(\<lambda>n. zoom_after (map clock [0..<n]) s) \<longlonglongrightarrow> tz"
    using approach_limit [of "9/10" tz cz] by (simp add: z)
  have lim_r: "(\<lambda>n. speed_after (map clock [0..<n]) s) \<longlonglongrightarrow> tr"
    using approach_limit [of "19/20" tr cr] by (simp add: r)
  from closed closed_r unit mono_z mono_r box_z box_r lim_z lim_r show ?thesis
    by (intro conjI)
qed

theorem C3_smoothing_witness:
  "targetZoom (initial_state\<lparr> targetZoom := Some 1, currentZoom := Some 0,
       targetRotationSpeed := Some 0.05, currentRotationSpeed := Some 0.002 \<rparr>) = Some 1
   \<and> currentZoom (initial_state\<lparr> targetZoom := Some 1, currentZoom := Some 0,
       targetRotationSpeed := Some 0.05, currentRotationSpeed := Some 0.002 \<rparr>) = Some 0
   \<and> targetRotationSpeed (initial_state\<lparr> targetZoom := Some 1, currentZoom := Some 0,
       targetRotationSpeed := Some 0.05, currentRotationSpeed := Some 0.002 \<rparr>) = Some 0.05
   \<and> currentRotationSpeed (initial_state\<lparr> targetZoom := Some 1, currentZoom := Some 0,
       targetRotationSpeed := Some 0.05, currentRotationSpeed := Some 0.002 \<rparr>) = Some 0.002
   \<and> currentZoom (run_ticks [1/60, 2/60] (initial_state\<lparr> targetZoom := Some 1, currentZoom := Some 0,
       targetRotationSpeed := Some 0.05, currentRotationSpeed := Some 0.002 \<rparr>)) = Some (19/100)
   \<and> currentRotationSpeed (run_ticks [1/60, 2/60] (initial_state\<lparr> targetZoom := Some 1,
       currentZoom := Some 0, targetRotationSpeed := Some 0.05,
       currentRotationSpeed := Some 0.002 \<rparr>)) = Some (167/25000)"
proof -
  let ?s = "initial_state\<lparr> targetZoom := Some 1, currentZoom := Some 0,
       targetRotationSpeed := Some 0.05, currentRotationSpeed := Some 0.002 \<rparr>"
  have hyps: "targetZoom ?s = Some 1" "currentZoom ?s = Some 0"
    "targetRotationSpeed ?s = Some 0.05" "currentRotationSpeed ?s = Some 0.002"
    by simp_all
  show ?thesis
    using C3_smoothing [OF hyps, of "[1/60, 2/60]"] by (simp add: power2_eq_square)
qed

lemma closing_frame_zoom:
  assumes "k \<le> 50"
  shows "targetZoom (snd (onResults None ray (closing_frame k) s)) = Some (1 - real k / 50)"
    and "currentZoom (snd (onResults None ray (closing_frame k) s)) = currentZoom s"
proof -
  let ?h = "sample_hand ((1.8 - real k / 50) / 2) (1/2)"
  have k: "real k \<le> 50"
    using assms by simp
  have d1: "dist_lm (?h ! 0) (?h ! 12) = (1.8 - real k / 50) / 2"
    using k by (simp add: dist_lm_def hypot_axis sample_hand_nth)
  have d2: "dist_lm (?h ! 0) (?h ! 5) = 1/2"
    by (simp add: dist_lm_def hypot_axis sample_hand_nth)
  have "zoom_written ?h = max 0 (min 1 ((((1.8 - real k / 50) / 2) / (1/2) - 0.8) / (1.8 - 0.8)))"
    unfolding zoom_written_def Let_def d1 d2 by simp
  also have "(((1.8 - real k / 50) / 2) / (1/2) - 0.8) / (1.8 - 0.8) = 1 - real k / 50"
    by (simp add: field_simps)
  also have "max 0 (min 1 (1 - real k / 50)) = 1 - real k / 50"
    using k by simp
  finally have "zoom_written ?h = 1 - real k / 50" .
  then show "targetZoom (snd (onResults None ray (closing_frame k) s)) = Some (1 - real k / 50)"
    by (simp add: closing_frame_def onResults_def onResults_hand_ok sample_hand_length
        sample_hand_drawHand)
  show "currentZoom (snd (onResults None ray (closing_frame k) s)) = currentZoom s"
    by (simp add: closing_frame_def onResults_def onResults_hand_ok sample_hand_length
        sample_hand_drawHand updateInteraction_eq)
qed

lemma closing_hand_closed_form:
  assumes "k \<le> 50"
  shows "or_default (currentZoom (closing_hand ray k s)) 0
           = 1 - real k / 50 + 9/50 + (or_default (currentZoom s) 0 - 59/50) * (9/10) ^ k
         \<and> (0 < k \<longrightarrow> currentZoom (closing_hand ray k s) \<noteq> None
               \<and> camera_z (closing_hand ray k s)
                   = 25 - or_default (currentZoom (closing_hand ray k s)) 0 * (25 - 8))"
  using assms
proof (induction k)
  case 0
  then show ?case by simp
next
  case (Suc k)
  let ?prev = "closing_hand ray k s"
  let ?mid = "snd (onResults None ray (closing_frame (Suc k)) ?prev)"
  let ?c = "or_default (currentZoom ?prev) 0"
  have le: "Suc k \<le> 50" "k \<le> 50"
    using Suc.prems by simp_all
  have tz: "targetZoom ?mid = Some (1 - real (Suc k) / 50)"
    and cz: "currentZoom ?mid = currentZoom ?prev"
    using closing_frame_zoom [OF le(1)] by simp_all
  define c' where "c' = ?c + ((1 - real (Suc k) / 50) - ?c) * 0.1"
  have step: "currentZoom (closing_hand ray (Suc k) s) = Some c'"
    and cam: "camera_z (closing_hand ray (Suc k) s) = 25 - c' * (25 - 8)"
    using tz cz by (simp_all add: animate_def Let_def c'_def)
  have IH: "?c = 1 - real k / 50 + 9/50 + (or_default (currentZoom s) 0 - 59/50) * (9/10) ^ k"
    using Suc.IH le(2) by simp
  have alg: "c' = 1 - real (Suc k) / 50 + 9/50 + (or_default (currentZoom s) 0 - 59/50) * (9/10) ^ Suc k"
    unfolding c'_def IH by (simp add: field_simps)
  have val: "or_default (currentZoom (closing_hand ray (Suc k) s)) 0 = c'"
    unfolding step by (simp add: or_default_def)
  show ?case
    unfolding val cam using alg step by simp
qed

lemma closing_hand_final:
  "currentZoom (closing_hand ray 50 s)
     = Some (9/50 + (or_default (currentZoom s) 0 - 59/50) * (9/10) ^ 50)
   \<and> camera_z (closing_hand ray 50 s)
     = 25 - (9/50 + (or_default (currentZoom s) 0 - 59/50) * (9/10) ^ 50) * (25 - 8)"
proof -
  have cf: "or_default (currentZoom (closing_hand ray 50 s)) 0
      = 1 - real 50 / 50 + 9/50 + (or_default (currentZoom s) 0 - 59/50) * (9/10) ^ 50"
    and some: "currentZoom (closing_hand ray 50 s) \<noteq> None"
    and cam: "camera_z (closing_hand ray 50 s)
      = 25 - or_default (currentZoom (closing_hand ray 50 s)) 0 * (25 - 8)"
    using closing_hand_closed_form [of 50 ray s] by simp_all
  have val: "or_default (currentZoom (closing_hand ray 50 s)) 0
      = 9/50 + (or_default (currentZoom s) 0 - 59/50) * (9/10) ^ 50"
    unfolding cf by simp
  from some obtain z where z: "currentZoom (closing_hand ray 50 s) = Some z"
    by auto
  then have "z = 9/50 + (or_default (currentZoom s) 0 - 59/50) * (9/10) ^ 50"
    using val by (simp add: or_default_def)
  with z cam val show ?thesis
    by simp
qed

lemma power_9_10_50: "(0::real) < (9/10) ^ 50" "(9/10 :: real) ^ 50 < 1/150"
  by (simp_all add: power_divide)

text \<open>
  C5, as the code behaves.  After the 50 ticks of the closing hand the smoothed zoom
  still lags the target: it is \<open>0.18 + (z0 - 1.18) * 0.9 ^ 50\<close>, where \<open>z0\<close> is the
  smoothed zoom before the first tick (0 when it is still undefined).  For \<open>z0\<close> between
  0 and 1 it lies strictly between 0.17 and 0.18, and the camera distance
  \<open>25 - currentZoom * (25 - 8)\<close> lies strictly between 21.94 and 22.11.
\<close>

theorem C5_closing_hand_lag:
  assumes "0 \<le> or_default (currentZoom s) 0" and "or_default (currentZoom s) 0 \<le> 1"
  shows "currentZoom (closing_hand ray 50 s)
           = Some (9/50 + (or_default (currentZoom s) 0 - 59/50) * (9/10) ^ 50)
     \<and> camera_z (closing_hand ray 50 s)
           = 25 - or_default (currentZoom (closing_hand ray 50 s)) 0 * (25 - 8)
     \<and> 17/100 < or_default (currentZoom (closing_hand ray 50 s)) 0
     \<and> or_default (currentZoom (closing_hand ray 50 s)) 0 < 18/100
     \<and> 2194/100 < camera_z (closing_hand ray 50 s)
     \<and> camera_z (closing_hand ray 50 s) < 2211/100"
proof -
  define z0 where "z0 = or_default (currentZoom s) 0"
  define p :: real where "p = (9/10) ^ 50"
  define z where "z = 9/50 + (z0 - 59/50) * p"
  have p: "0 < p" "p < 1/150"
    unfolding p_def by (rule power_9_10_50)+
  have z0: "0 \<le> z0" "z0 \<le> 1"
    using assms by (simp_all add: z0_def)
  have fin: "currentZoom (closing_hand ray 50 s) = Some z"
    and cam: "camera_z (closing_hand ray 50 s) = 25 - z * (25 - 8)"
    using closing_hand_final [of ray s] by (simp_all add: z_def z0_def p_def)
  have val: "or_default (currentZoom (closing_hand ray 50 s)) 0 = z"
    unfolding fin by (simp add: or_default_def)
  have "(- (59/50)) * p \<le> (z0 - 59/50) * p"
    using z0(1) p(1) by (intro mult_right_mono) simp_all
  moreover have "(z0 - 59/50) * p \<le> (- (9/50)) * p"
    using z0(2) p(1) by (intro mult_right_mono) simp_all
  ultimately have zb: "17/100 < z" "z < 18/100"
    using p unfolding z_def by linarith+
  then have "2194/100 < 25 - z * (25 - 8)" "25 - z * (25 - 8) < 2211/100"
    by simp_all
  with zb fin cam val show ?thesis
    by (simp add: z_def z0_def p_def)
qed

theorem C5_closing_hand_lag_witness:
  "0 \<le> or_default (currentZoom initial_state) 0
   \<and> or_default (currentZoom initial_state) 0 \<le> 1
   \<and> currentZoom (closing_hand miss 50 initial_state) = Some (9/50 - 59/50 * (9/10) ^ 50)
   \<and> 17/100 < or_default (currentZoom (closing_hand miss 50 initial_state)) 0
   \<and> camera_z (closing_hand miss 50 initial_state) < 2211/100"
proof -
  have z0: "or_default (currentZoom initial_state) 0 = 0"
    by (simp add: initial_state_def or_default_def)
  have hyps: "0 \<le> or_default (currentZoom initial_state) 0"
    "or_default (currentZoom initial_state) 0 \<le> 1"
    unfolding z0 by simp_all
  note lag = C5_closing_hand_lag [OF hyps, of miss, unfolded z0]
  have a: "currentZoom (closing_hand miss 50 initial_state) = Some (9/50 - 59/50 * (9/10) ^ 50)"
    using lag by simp
  have b: "17/100 < or_default (currentZoom (closing_hand miss 50 initial_state)) 0"
    and c: "camera_z (closing_hand miss 50 initial_state) < 2211/100"
    using lag by blast+
  show ?thesis
    using hyps a b c by blast
qed

text \<open>
  C5 as the specification states it fails: starting from the script's initial state
  the smoothed zoom after the 50 ticks is about 0.174, not within \<open>10\<^sup>-\<^sup>6\<close> of 0, and
  the camera is about 22.04 from the origin, not within that tolerance of 25.
\<close>

theorem C5_final_zoom_counterexample:
  "currentZoom (closing_hand miss 50 initial_state) = Some (9/50 - 59/50 * (9/10) ^ 50)
   \<and> \<not> \<bar>(9/50 - 59/50 * (9/10) ^ 50) - 0\<bar> \<le> (1/1000000 :: real)
   \<and> \<not> \<bar>camera_z (closing_hand miss 50 initial_state) - 25\<bar> \<le> 1/1000000"
proof -
  have z0: "or_default (currentZoom initial_state) 0 = 0"
    by (simp add: initial_state_def or_default_def)
  have fin: "currentZoom (closing_hand miss 50 initial_state) = Some (9/50 - 59/50 * (9/10) ^ 50)"
    and cam: "camera_z (closing_hand miss 50 initial_state)
        = 25 - (9/50 - 59/50 * (9/10) ^ 50) * (25 - 8)"
    using closing_hand_final [of miss initial_state] unfolding z0 by simp_all
  have far: "\<not> \<bar>(9/50 - 59/50 * (9/10) ^ 50) - 0\<bar> \<le> (1/1000000 :: real)"
    using power_9_10_50 by linarith
  have "(25 - (9/50 - 59/50 * (9/10) ^ 50) * (25 - 8)) - 25
      = - (153/50) + 1003/50 * (9/10 :: real) ^ 50"
    by simp
  then have far_cam: "\<not> \<bar>(25 - (9/50 - 59/50 * (9/10) ^ 50) * (25 - 8)) - 25\<bar> \<le> (1/1000000 :: real)"
    using power_9_10_50 by linarith
  show ?thesis
    using fin far far_cam unfolding cam by blast
qed

subsection \<open>Repulsion\<close>

lemma glsl_length_nonneg: "0 \<le> glsl_length a"
  by (simp add: glsl_length_def)

lemma glsl_length_scale: "glsl_length (vec3_scale a k) = \<bar>k\<bar> * glsl_length a"
proof -
  have "vx a * k * (vx a * k) + vy a * k * (vy a * k) + vz a * k * (vz a * k)
      = k\<^sup>2 * (vx a * vx a + vy a * vy a + vz a * vz a)"
    by (simp add: power2_eq_square algebra_simps)
  then show ?thesis
    by (simp add: glsl_length_def vec3_scale_def real_sqrt_mult)
qed

lemma vec3_scale_scale: "vec3_scale (vec3_scale a j) k = vec3_scale a (j * k)"
  by (simp add: vec3_scale_def mult.assoc)

lemma vec3_add_sub: "vec3_sub (vec3_add a b) a = b"
  by (simp add: vec3_add_def vec3_sub_def)

lemma vec3_sub_self: "vec3_sub a a = Vector3"
  by (simp add: vec3_sub_def Vector3_def)

lemma glsl_length_zero: "glsl_length Vector3 = 0"
  by (simp add: glsl_length_def Vector3_def)

lemma glsl_normalize_unit:
  assumes "glsl_length a \<noteq> 0"
  shows "glsl_normalize a = Some (vec3_scale a (1 / glsl_length a))"
    and "glsl_length (vec3_scale a (1 / glsl_length a)) = 1"
  using assms glsl_length_nonneg [of a]
  by (simp_all add: glsl_normalize_def glsl_length_scale)

lemma displacement_far:
  assumes "4 \<le> glsl_distance pos u_mouse"
  shows "repulsion u_mouse u_hover pos = Some pos"
    and "displacement u_mouse u_hover pos = Some Vector3"
    and "displacement_length u_mouse u_hover pos = Some 0"
  using assms
  by (simp_all add: repulsion_def displacement_def displacement_length_def vec3_sub_self
      glsl_length_zero)

lemma displacement_near:
  assumes "0 < glsl_distance pos u_mouse" and "glsl_distance pos u_mouse < 4"
  shows "displacement u_mouse u_hover pos
           = Some (vec3_scale (vec3_scale (vec3_sub pos u_mouse) (1 / glsl_distance pos u_mouse))
                     ((1 - glsl_distance pos u_mouse / 4) * 3 * u_hover))"
    and "displacement_length u_mouse u_hover pos
           = Some ((1 - glsl_distance pos u_mouse / 4) * 3 * \<bar>u_hover\<bar>)"
proof -
  let ?d = "glsl_distance pos u_mouse"
  let ?u = "vec3_scale (vec3_sub pos u_mouse) (1 / ?d)"
  have nz: "glsl_length (vec3_sub pos u_mouse) \<noteq> 0"
    using assms(1) by (simp add: glsl_distance_def)
  have dir: "glsl_normalize (vec3_sub pos u_mouse) = Some ?u" and unit: "glsl_length ?u = 1"
    using glsl_normalize_unit [OF nz] by (simp_all add: glsl_distance_def)
  have "repulsion u_mouse u_hover pos
      = Some (vec3_add pos (vec3_scale (vec3_scale (vec3_scale ?u (1 - ?d / 4)) 3) u_hover))"
    using assms(2) by (simp add: repulsion_def Let_def dir)
  then have rep: "repulsion u_mouse u_hover pos
      = Some (vec3_add pos (vec3_scale ?u ((1 - ?d / 4) * 3 * u_hover)))"
    by (simp only: vec3_scale_scale mult.assoc)
  show disp: "displacement u_mouse u_hover pos = Some (vec3_scale ?u ((1 - ?d / 4) * 3 * u_hover))"
    by (simp add: displacement_def rep vec3_add_sub)
  define k where "k = (1 - ?d / 4) * 3 * u_hover"
  have "\<bar>k\<bar> = (1 - ?d / 4) * 3 * \<bar>u_hover\<bar>"
    using assms(2) by (simp add: k_def abs_mult)
  moreover have "glsl_length (vec3_scale ?u k) = \<bar>k\<bar> * glsl_length ?u"
    by (rule glsl_length_scale)
  ultimately have "glsl_length (vec3_scale ?u k) = (1 - ?d / 4) * 3 * \<bar>u_hover\<bar>"
    by (simp only: unit mult_1_right)
  then show "displacement_length u_mouse u_hover pos = Some ((1 - ?d / 4) * 3 * \<bar>u_hover\<bar>)"
    unfolding displacement_length_def disp k_def by simp
qed

lemma displacement_centre:
  assumes "glsl_distance pos u_mouse = 0"
  shows "repulsion u_mouse u_hover pos = None"
    and "displacement u_mouse u_hover pos = None"
    and "displacement_length u_mouse u_hover pos = None"
proof -
  have "glsl_normalize (vec3_sub pos u_mouse) = None"
    using assms by (simp add: glsl_normalize_def glsl_distance_def)
  then show "repulsion u_mouse u_hover pos = None"
    using assms by (simp add: repulsion_def)
  then show "displacement u_mouse u_hover pos = None"
    "displacement_length u_mouse u_hover pos = None"
    by (simp_all add: displacement_def displacement_length_def)
qed

text \<open>
  C4, as the code behaves.  For a jittered position at distance \<open>d\<close> from \<open>u_mouse\<close>
  and \<open>u_hover \<ge> 0\<close>: when \<open>d \<ge> 4\<close> nothing is added; when \<open>0 < d < 4\<close> the
  displacement is the unit vector from \<open>u_mouse\<close> toward the position scaled by
  \<open>(1 - d / 4) * 3 * u_hover\<close>, of that magnitude, at most \<open>3 * u_hover\<close>; the
  magnitude does not increase with \<open>d\<close> on \<open>d > 0\<close> and is 0 at \<open>d = 4\<close> and beyond.
\<close>

theorem C4_repulsion_falloff:
  assumes "0 \<le> u_hover"
  shows "let pos = noise u_time a_random position;
             d = glsl_distance pos u_mouse;
             d' = glsl_distance pos' u_mouse
         in vertexShader_position u_time u_mouse u_hover a_random position
              = repulsion u_mouse u_hover pos
            \<and> (4 \<le> d \<longrightarrow> repulsion u_mouse u_hover pos = Some pos
                    \<and> displacement_length u_mouse u_hover pos = Some 0)
            \<and> (0 < d \<and> d < 4 \<longrightarrow>
                  glsl_length (vec3_scale (vec3_sub pos u_mouse) (1 / d)) = 1
                  \<and> displacement u_mouse u_hover pos
                      = Some (vec3_scale (vec3_scale (vec3_sub pos u_mouse) (1 / d))
                                ((1 - d / 4) * 3 * u_hover))
                  \<and> displacement_length u_mouse u_hover pos = Some ((1 - d / 4) * 3 * u_hover)
                  \<and> (1 - d / 4) * 3 * u_hover \<le> 3 * u_hover)
            \<and> (0 < d \<and> d \<le> d' \<longrightarrow>
                  (\<exists>a b. displacement_length u_mouse u_hover pos = Some a
                       \<and> displacement_length u_mouse u_hover pos' = Some b
                       \<and> 0 \<le> b \<and> b \<le> a))"
proof -
  define pos where "pos = noise u_time a_random position"
  define d where "d = glsl_distance pos u_mouse"
  define d' where "d' = glsl_distance pos' u_mouse"
  define mag where "mag x = (1 - x / 4) * 3 * u_hover" for x :: real
  have main: "vertexShader_position u_time u_mouse u_hover a_random position
      = repulsion u_mouse u_hover pos"
    by (simp add: vertexShader_position_def pos_def)
  have far: "4 \<le> d \<longrightarrow> repulsion u_mouse u_hover pos = Some pos
      \<and> displacement_length u_mouse u_hover pos = Some 0"
    using displacement_far [of pos u_mouse u_hover] by (simp add: d_def)
  have len: "displacement_length u_mouse u_hover q = Some (mag (glsl_distance q u_mouse))"
    if "0 < glsl_distance q u_mouse" "glsl_distance q u_mouse < 4" for q
    using displacement_near(2) [OF that, of u_hover] assms by (simp add: mag_def)
  have near: "0 < d \<and> d < 4 \<longrightarrow>
      glsl_length (vec3_scale (vec3_sub pos u_mouse) (1 / d)) = 1
      \<and> displacement u_mouse u_hover pos
          = Some (vec3_scale (vec3_scale (vec3_sub pos u_mouse) (1 / d)) ((1 - d / 4) * 3 * u_hover))
      \<and> displacement_length u_mouse u_hover pos = Some ((1 - d / 4) * 3 * u_hover)
      \<and> (1 - d / 4) * 3 * u_hover \<le> 3 * u_hover"
  proof
    assume range: "0 < d \<and> d < 4"
    then have nz: "glsl_length (vec3_sub pos u_mouse) \<noteq> 0"
      by (simp add: d_def glsl_distance_def)
    have unit: "glsl_length (vec3_scale (vec3_sub pos u_mouse) (1 / d)) = 1"
      using glsl_normalize_unit(2) [OF nz] by (simp add: d_def glsl_distance_def)
    have "(1 - d / 4) * 3 * u_hover \<le> 1 * 3 * u_hover"
      using range assms by (intro mult_right_mono) simp_all
    then have "(1 - d / 4) * 3 * u_hover \<le> 3 * u_hover"
      by simp
    with unit displacement_near(1) [of pos u_mouse u_hover] len [of pos] range
    show "glsl_length (vec3_scale (vec3_sub pos u_mouse) (1 / d)) = 1
      \<and> displacement u_mouse u_hover pos
          = Some (vec3_scale (vec3_scale (vec3_sub pos u_mouse) (1 / d)) ((1 - d / 4) * 3 * u_hover))
      \<and> displacement_length u_mouse u_hover pos = Some ((1 - d / 4) * 3 * u_hover)
      \<and> (1 - d / 4) * 3 * u_hover \<le> 3 * u_hover"
      by (simp add: d_def mag_def)
  qed
  have mono: "0 < d \<and> d \<le> d' \<longrightarrow>
      (\<exists>a b. displacement_length u_mouse u_hover pos = Some a
           \<and> displacement_length u_mouse u_hover pos' = Some b \<and> 0 \<le> b \<and> b \<le> a)"
  proof
    assume order: "0 < d \<and> d \<le> d'"
    show "\<exists>a b. displacement_length u_mouse u_hover pos = Some a
           \<and> displacement_length u_mouse u_hover pos' = Some b \<and> 0 \<le> b \<and> b \<le> a"
    proof (cases "d' < 4")
      case True
      have a: "displacement_length u_mouse u_hover pos = Some (mag d)"
        using len [of pos] order True by (simp add: d_def)
      have b: "displacement_length u_mouse u_hover pos' = Some (mag d')"
        using len [of pos'] order True by (simp add: d'_def)
      have "(1 - d' / 4) * 3 \<le> (1 - d / 4) * 3" "0 \<le> (1 - d' / 4) * 3"
        using order True by simp_all
      then have "mag d' \<le> mag d" "0 \<le> mag d'"
        unfolding mag_def using assms by (simp_all add: mult_right_mono)
      with a b show ?thesis by blast
    next
      case False
      then have b: "displacement_length u_mouse u_hover pos' = Some 0"
        using displacement_far(3) [of pos' u_mouse u_hover] by (simp add: d'_def)
      show ?thesis
      proof (cases "d < 4")
        case True
        have a: "displacement_length u_mouse u_hover pos = Some (mag d)"
          using len [of pos] order True by (simp add: d_def)
        have "0 \<le> (1 - d / 4) * 3"
          using True by simp
        then have "0 \<le> mag d"
          unfolding mag_def using assms by simp
        with a b show ?thesis by blast
      next
        case False
        then have "displacement_length u_mouse u_hover pos = Some 0"
          using displacement_far(3) [of pos u_mouse u_hover] by (simp add: d_def)
        with b show ?thesis by simp
      qed
    qed
  qed
  from main far near mono show ?thesis
    unfolding Let_def pos_def [symmetric] d_def [symmetric] d'_def [symmetric] by blast
qed

theorem C4_repulsion_falloff_witness:
  "(0::real) \<le> 1
   \<and> noise 0 Vector3 \<lparr> vx = 2, vy = - (1/20), vz = 0 \<rparr> = \<lparr> vx = 2, vy = 0, vz = 0 \<rparr>
   \<and> glsl_distance \<lparr> vx = 2, vy = 0, vz = 0 \<rparr> Vector3 = 2
   \<and> vertexShader_position 0 Vector3 1 Vector3 \<lparr> vx = 2, vy = - (1/20), vz = 0 \<rparr>
       = Some \<lparr> vx = 7/2, vy = 0, vz = 0 \<rparr>
   \<and> displacement_length Vector3 1 \<lparr> vx = 2, vy = 0, vz = 0 \<rparr> = Some (3/2)"
proof -
  let ?p = "\<lparr> vx = 2, vy = 0, vz = 0 \<rparr>"
  have n: "noise 0 Vector3 \<lparr> vx = 2, vy = - (1/20), vz = 0 \<rparr> = ?p"
    by (simp add: noise_def Vector3_def)
  have "sqrt 4 = (2::real)"
    by (rule real_sqrt_unique) simp_all
  then have d: "glsl_distance ?p Vector3 = 2"
    by (simp add: glsl_distance_def glsl_length_def vec3_sub_def Vector3_def)
  note c4 = C4_repulsion_falloff [of 1 0 Vector3 "\<lparr> vx = 2, vy = - (1/20), vz = 0 \<rparr>" Vector3 ?p,
      unfolded Let_def n d]
  have len: "displacement_length Vector3 1 ?p = Some (3/2)"
    using c4 by simp
  have "vertexShader_position 0 Vector3 1 Vector3 \<lparr> vx = 2, vy = - (1/20), vz = 0 \<rparr>
      = repulsion Vector3 1 ?p"
    using c4 by simp
  moreover have "displacement Vector3 1 ?p = Some (vec3_scale (vec3_scale (vec3_sub ?p Vector3) (1 / 2)) ((1 - 2 / 4) * 3 * 1))"
    using c4 by simp
  ultimately have pos: "vertexShader_position 0 Vector3 1 Vector3 \<lparr> vx = 2, vy = - (1/20), vz = 0 \<rparr>
       = Some \<lparr> vx = 7/2, vy = 0, vz = 0 \<rparr>"
    by (auto simp: displacement_def vec3_sub_def vec3_scale_def Vector3_def)
  show ?thesis
    using n d len pos by simp
qed

text \<open>
  C4 as the specification states it fails at \<open>d = 0\<close>: for a particle whose jittered
  position is \<open>u_mouse\<close> itself the direction is the normalisation of the zero vector,
  and no displacement of magnitude \<open>3 * u_hover\<close> results.
\<close>

theorem C4_centre_counterexample:
  "noise 0 Vector3 \<lparr> vx = 0, vy = - (1/20), vz = 0 \<rparr> = Vector3
   \<and> glsl_distance Vector3 Vector3 = 0
   \<and> vertexShader_position 0 Vector3 1 Vector3 \<lparr> vx = 0, vy = - (1/20), vz = 0 \<rparr> = None
   \<and> displacement_length Vector3 1 Vector3 \<noteq> Some (3.0 * 1)"
proof -
  have n: "noise 0 Vector3 \<lparr> vx = 0, vy = - (1/20), vz = 0 \<rparr> = Vector3"
    by (simp add: noise_def Vector3_def)
  have d: "glsl_distance Vector3 Vector3 = 0"
    by (simp add: glsl_distance_def vec3_sub_self glsl_length_zero)
  show ?thesis
    using n d displacement_centre [OF d, of 1]
    by (simp add: vertexShader_position_def)
qed

subsection \<open>Particle layout\<close>

lemma sphere_body_fields:
  "positions (sphere_body cfg rnd i g)
     = (positions g)[i * 3 := fst (sphere_point cfg i),
                     i * 3 + 1 := fst (snd (sphere_point cfg i)),
                     i * 3 + 2 := snd (snd (sphere_point cfg i))]"
  "draws (sphere_body cfg rnd i g) = draws g + 3"
  by (simp_all add: sphere_body_def sphere_point_def Let_def)

lemma ring_body_fields:
  "positions (ring_body cfg rnd off i g)
     = (positions g)[off + i * 3 := fst (ring_point cfg (rnd (draws g)) (rnd (draws g + 1)) (rnd (draws g + 2))),
                     off + i * 3 + 1 := fst (snd (ring_point cfg (rnd (draws g)) (rnd (draws g + 1)) (rnd (draws g + 2)))),
                     off + i * 3 + 2 := snd (snd (ring_point cfg (rnd (draws g)) (rnd (draws g + 1)) (rnd (draws g + 2))))]"
  "draws (ring_body cfg rnd off i g) = draws g + 6"
  by (simp_all add: ring_body_def ring_point_def Let_def)

lemma sphere_loop:
  assumes "n * 3 \<le> length (positions g)"
  shows "length (positions (for_upto n (sphere_body cfg rnd) g)) = length (positions g)
     \<and> draws (for_upto n (sphere_body cfg rnd) g) = draws g + 3 * n
     \<and> (\<forall>i<n. positions (for_upto n (sphere_body cfg rnd) g) ! (i * 3) = fst (sphere_point cfg i)
            \<and> positions (for_upto n (sphere_body cfg rnd) g) ! (i * 3 + 1) = fst (snd (sphere_point cfg i))
            \<and> positions (for_upto n (sphere_body cfg rnd) g) ! (i * 3 + 2) = snd (snd (sphere_point cfg i)))"
  using assms
proof (induction n)
  case 0
  then show ?case by simp
next
  case (Suc n)
  let ?g = "for_upto n (sphere_body cfg rnd) g"
  have IH: "length (positions ?g) = length (positions g)"
    "draws ?g = draws g + 3 * n"
    "\<forall>i<n. positions ?g ! (i * 3) = fst (sphere_point cfg i)
        \<and> positions ?g ! (i * 3 + 1) = fst (snd (sphere_point cfg i))
        \<and> positions ?g ! (i * 3 + 2) = snd (snd (sphere_point cfg i))"
    using Suc by simp_all
  have room: "n * 3 + 2 < length (positions ?g)"
    using Suc.prems IH(1) by simp
  have "positions (for_upto (Suc n) (sphere_body cfg rnd) g) ! (i * 3) = fst (sphere_point cfg i)
      \<and> positions (for_upto (Suc n) (sphere_body cfg rnd) g) ! (i * 3 + 1) = fst (snd (sphere_point cfg i))
      \<and> positions (for_upto (Suc n) (sphere_body cfg rnd) g) ! (i * 3 + 2) = snd (snd (sphere_point cfg i))"
    if "i < Suc n" for i
  proof (cases "i = n")
    case True
    then show ?thesis
      using room by (simp add: sphere_body_fields)
  next
    case False
    then have "i < n"
      using that by simp
    then show ?thesis
      using IH(3) by (simp add: sphere_body_fields)
  qed
  then show ?case
    using IH(1,2) by (simp add: sphere_body_fields)
qed

lemma ring_loop:
  assumes "off + m * 3 \<le> length (positions g)"
  shows "length (positions (for_upto m (ring_body cfg rnd off) g)) = length (positions g)
     \<and> draws (for_upto m (ring_body cfg rnd off) g) = draws g + 6 * m
     \<and> (\<forall>j<off. positions (for_upto m (ring_body cfg rnd off) g) ! j = positions g ! j)
     \<and> (\<forall>i<m. positions (for_upto m (ring_body cfg rnd off) g) ! (off + i * 3)
              = fst (ring_point cfg (rnd (draws g + 6 * i)) (rnd (draws g + 6 * i + 1)) (rnd (draws g + 6 * i + 2)))
            \<and> positions (for_upto m (ring_body cfg rnd off) g) ! (off + i * 3 + 1)
              = fst (snd (ring_point cfg (rnd (draws g + 6 * i)) (rnd (draws g + 6 * i + 1)) (rnd (draws g + 6 * i + 2))))
            \<and> positions (for_upto m (ring_body cfg rnd off) g) ! (off + i * 3 + 2)
              = snd (snd (ring_point cfg (rnd (draws g + 6 * i)) (rnd (draws g + 6 * i + 1)) (rnd (draws g + 6 * i + 2)))))"
  using assms
proof (induction m)
  case 0
  then show ?case by simp
next
  case (Suc m)
  let ?g = "for_upto m (ring_body cfg rnd off) g"
  let ?pt = "\<lambda>i. ring_point cfg (rnd (draws g + 6 * i)) (rnd (draws g + 6 * i + 1)) (rnd (draws g + 6 * i + 2))"
  have IH: "length (positions ?g) = length (positions g)"
    "draws ?g = draws g + 6 * m"
    "\<forall>j<off. positions ?g ! j = positions g ! j"
    "\<forall>i<m. positions ?g ! (off + i * 3) = fst (?pt i)
        \<and> positions ?g ! (off + i * 3 + 1) = fst (snd (?pt i))
        \<and> positions ?g ! (off + i * 3 + 2) = snd (snd (?pt i))"
    using Suc by simp_all
  have room: "off + m * 3 + 2 < length (positions ?g)"
    using Suc.prems IH(1) by simp
  have low: "\<forall>j<off. positions (for_upto (Suc m) (ring_body cfg rnd off) g) ! j = positions g ! j"
    using IH(3) by (simp add: ring_body_fields)
  have "positions (for_upto (Suc m) (ring_body cfg rnd off) g) ! (off + i * 3) = fst (?pt i)
      \<and> positions (for_upto (Suc m) (ring_body cfg rnd off) g) ! (off + i * 3 + 1) = fst (snd (?pt i))
      \<and> positions (for_upto (Suc m) (ring_body cfg rnd off) g) ! (off + i * 3 + 2) = snd (snd (?pt i))"
    if "i < Suc m" for i
  proof (cases "i = m")
    case True
    then show ?thesis
      using room IH(2) by (simp add: ring_body_fields)
  next
    case False
    then have "i < m"
      using that by simp
    then show ?thesis
      using IH(4) by (simp add: ring_body_fields)
  qed
  then show ?case
    using IH(1,2) low by (simp add: ring_body_fields)
qed

lemma createParticles_sphere:
  assumes "i < particleCountSphere cfg"
  shows "positions (createParticles cfg rnd) ! (i * 3) = fst (sphere_point cfg i)"
    and "positions (createParticles cfg rnd) ! (i * 3 + 1) = fst (snd (sphere_point cfg i))"
    and "positions (createParticles cfg rnd) ! (i * 3 + 2) = snd (snd (sphere_point cfg i))"
proof -
  define ns nr where "ns = particleCountSphere cfg" and "nr = particleCountRing cfg"
  define g0 where "g0 = \<lparr> positions = replicate ((ns + nr) * 3) (0::real),
      randoms = replicate ((ns + nr) * 3) (0::real), draws = 0 \<rparr>"
  define g1 where "g1 = for_upto ns (sphere_body cfg rnd) g0"
  have cp: "createParticles cfg rnd = for_upto nr (ring_body cfg rnd (ns * 3)) g1"
    by (simp add: createParticles_def Let_def g1_def g0_def ns_def nr_def)
  have "ns * 3 \<le> length (positions g0)"
    by (simp add: g0_def)
  from sphere_loop [OF this, of cfg rnd]
  have len1: "length (positions g1) = (ns + nr) * 3"
    and pts: "\<forall>i<ns. positions g1 ! (i * 3) = fst (sphere_point cfg i)
        \<and> positions g1 ! (i * 3 + 1) = fst (snd (sphere_point cfg i))
        \<and> positions g1 ! (i * 3 + 2) = snd (snd (sphere_point cfg i))"
    by (simp_all add: g1_def g0_def)
  have "ns * 3 + nr * 3 \<le> length (positions g1)"
    using len1 by simp
  from ring_loop [OF this, of cfg rnd]
  have keep: "\<forall>j<ns * 3. positions (createParticles cfg rnd) ! j = positions g1 ! j"
    by (simp add: cp)
  have i: "i < ns"
    using assms by (simp add: ns_def)
  then have "i * 3 < ns * 3" "i * 3 + 1 < ns * 3" "i * 3 + 2 < ns * 3"
    by simp_all
  with keep pts i
  show "positions (createParticles cfg rnd) ! (i * 3) = fst (sphere_point cfg i)"
    and "positions (createParticles cfg rnd) ! (i * 3 + 1) = fst (snd (sphere_point cfg i))"
    and "positions (createParticles cfg rnd) ! (i * 3 + 2) = snd (snd (sphere_point cfg i))"
    by simp_all
qed

lemma createParticles_ring:
  assumes "i < particleCountRing cfg"
  shows "positions (createParticles cfg rnd) ! (particleCountSphere cfg * 3 + i * 3)
           = fst (ring_point cfg (rnd (3 * particleCountSphere cfg + 6 * i))
                   (rnd (3 * particleCountSphere cfg + 6 * i + 1))
                   (rnd (3 * particleCountSphere cfg + 6 * i + 2)))"
    and "positions (createParticles cfg rnd) ! (particleCountSphere cfg * 3 + i * 3 + 1)
           = fst (snd (ring_point cfg (rnd (3 * particleCountSphere cfg + 6 * i))
                   (rnd (3 * particleCountSphere cfg + 6 * i + 1))
                   (rnd (3 * particleCountSphere cfg + 6 * i + 2))))"
    and "positions (createParticles cfg rnd) ! (particleCountSphere cfg * 3 + i * 3 + 2)
           = snd (snd (ring_point cfg (rnd (3 * particleCountSphere cfg + 6 * i))
                   (rnd (3 * particleCountSphere cfg + 6 * i + 1))
                   (rnd (3 * particleCountSphere cfg + 6 * i + 2))))"
proof -
  define ns nr where "ns = particleCountSphere cfg" and "nr = particleCountRing cfg"
  define g0 where "g0 = \<lparr> positions = replicate ((ns + nr) * 3) (0::real),
      randoms = replicate ((ns + nr) * 3) (0::real), draws = 0 \<rparr>"
  define g1 where "g1 = for_upto ns (sphere_body cfg rnd) g0"
  have cp: "createParticles cfg rnd = for_upto nr (ring_body cfg rnd (ns * 3)) g1"
    by (simp add: createParticles_def Let_def g1_def g0_def ns_def nr_def)
  have "ns * 3 \<le> length (positions g0)"
    by (simp add: g0_def)
  from sphere_loop [OF this, of cfg rnd]
  have len1: "length (positions g1) = (ns + nr) * 3" and d1: "draws g1 = 3 * ns"
    by (simp_all add: g1_def g0_def)
  have "ns * 3 + nr * 3 \<le> length (positions g1)"
    using len1 by simp
  from ring_loop [OF this, of cfg rnd]
  have pts: "\<forall>i<nr. positions (createParticles cfg rnd) ! (ns * 3 + i * 3)
              = fst (ring_point cfg (rnd (3 * ns + 6 * i)) (rnd (3 * ns + 6 * i + 1)) (rnd (3 * ns + 6 * i + 2)))
            \<and> positions (createParticles cfg rnd) ! (ns * 3 + i * 3 + 1)
              = fst (snd (ring_point cfg (rnd (3 * ns + 6 * i)) (rnd (3 * ns + 6 * i + 1)) (rnd (3 * ns + 6 * i + 2))))
            \<and> positions (createParticles cfg rnd) ! (ns * 3 + i * 3 + 2)
              = snd (snd (ring_point cfg (rnd (3 * ns + 6 * i)) (rnd (3 * ns + 6 * i + 1)) (rnd (3 * ns + 6 * i + 2))))"
    unfolding cp d1 by blast
  have "i < nr"
    using assms by (simp add: nr_def)
  with pts show
    "positions (createParticles cfg rnd) ! (particleCountSphere cfg * 3 + i * 3)
           = fst (ring_point cfg (rnd (3 * particleCountSphere cfg + 6 * i))
                   (rnd (3 * particleCountSphere cfg + 6 * i + 1))
                   (rnd (3 * particleCountSphere cfg + 6 * i + 2)))"
    "positions (createParticles cfg rnd) ! (particleCountSphere cfg * 3 + i * 3 + 1)
           = fst (snd (ring_point cfg (rnd (3 * particleCountSphere cfg + 6 * i))
                   (rnd (3 * particleCountSphere cfg + 6 * i + 1))
                   (rnd (3 * particleCountSphere cfg + 6 * i + 2))))"
    "positions (createParticles cfg rnd) ! (particleCountSphere cfg * 3 + i * 3 + 2)
           = snd (snd (ring_point cfg (rnd (3 * particleCountSphere cfg + 6 * i))
                   (rnd (3 * particleCountSphere cfg + 6 * i + 1))
                   (rnd (3 * particleCountSphere cfg + 6 * i + 2))))"
    unfolding ns_def by blast+
qed

lemma on_circle:
  fixes r a :: real
  shows "(r * cos a)\<^sup>2 + (r * sin a)\<^sup>2 = r\<^sup>2"
proof -
  have "(r * cos a)\<^sup>2 + (r * sin a)\<^sup>2 = r\<^sup>2 * ((cos a)\<^sup>2 + (sin a)\<^sup>2)"
    by (simp only: power_mult_distrib distrib_left)
  also have "\<dots> = r\<^sup>2 * 1"
    by (simp only: sin_cos_squared_add2)
  finally show ?thesis
    by simp
qed

lemma on_sphere:
  fixes r theta phi :: real
  shows "(r * cos theta * sin phi)\<^sup>2 + (r * sin theta * sin phi)\<^sup>2 + (r * cos phi)\<^sup>2 = r\<^sup>2"
proof -
  have "(r * cos theta * sin phi)\<^sup>2 + (r * sin theta * sin phi)\<^sup>2
      = ((r * sin phi) * cos theta)\<^sup>2 + ((r * sin phi) * sin theta)\<^sup>2"
    by (simp only: mult.assoc mult.commute [of "cos theta"] mult.commute [of "sin theta"])
  also have "\<dots> = (r * sin phi)\<^sup>2"
    by (rule on_circle)
  finally have "(r * cos theta * sin phi)\<^sup>2 + (r * sin theta * sin phi)\<^sup>2 + (r * cos phi)\<^sup>2
      = (r * sin phi)\<^sup>2 + (r * cos phi)\<^sup>2"
    by simp
  also have "\<dots> = (r * cos phi)\<^sup>2 + (r * sin phi)\<^sup>2"
    by (rule add.commute)
  also have "\<dots> = r\<^sup>2"
    by (rule on_circle)
  finally show ?thesis .
qed

lemma ring_radius_bounds:
  fixes u ri ro :: real
  assumes "0 \<le> u" "u < 1" "0 \<le> ri" "ri \<le> ro"
  shows "ri \<le> sqrt (u * (ro\<^sup>2 - ri\<^sup>2) + ri\<^sup>2)"
    and "sqrt (u * (ro\<^sup>2 - ri\<^sup>2) + ri\<^sup>2) \<le> ro"
    and "(sqrt (u * (ro\<^sup>2 - ri\<^sup>2) + ri\<^sup>2))\<^sup>2 = ri\<^sup>2 + u * (ro\<^sup>2 - ri\<^sup>2)"
proof -
  have sq: "ri\<^sup>2 \<le> ro\<^sup>2"
    using assms(3,4) by (simp add: power_mono)
  then have gap: "0 \<le> u * (ro\<^sup>2 - ri\<^sup>2)"
    using assms(1) by simp
  have "u * (ro\<^sup>2 - ri\<^sup>2) \<le> 1 * (ro\<^sup>2 - ri\<^sup>2)"
    using assms(2) sq by (intro mult_right_mono) simp_all
  then have top: "u * (ro\<^sup>2 - ri\<^sup>2) + ri\<^sup>2 \<le> ro\<^sup>2"
    by simp
  show "ri \<le> sqrt (u * (ro\<^sup>2 - ri\<^sup>2) + ri\<^sup>2)"
    using gap by (intro real_le_rsqrt) simp
  show "sqrt (u * (ro\<^sup>2 - ri\<^sup>2) + ri\<^sup>2) \<le> ro"
    using top assms(3,4) by (intro real_le_lsqrt) simp_all
  show "(sqrt (u * (ro\<^sup>2 - ri\<^sup>2) + ri\<^sup>2))\<^sup>2 = ri\<^sup>2 + u * (ro\<^sup>2 - ri\<^sup>2)"
    using gap by simp
qed

text \<open>
  C7.  Sphere particle \<open>i\<close> (for \<open>i\<close> below the sphere count \<open>Ns\<close>) is stored at
  \<open>(R cos \<theta> sin \<phi>, R sin \<theta> sin \<phi>, R cos \<phi>)\<close> with \<open>\<phi> = arccos (-1 + 2 i / Ns)\<close> and
  \<open>\<theta> = sqrt (Ns \<pi>) \<phi>\<close>, which lies at distance \<open>R\<close> from the origin, and the stored
  position does not depend on the random generator.
\<close>

theorem C7_sphere_radius:
  assumes "i < particleCountSphere cfg"
  shows "let Ns = real (particleCountSphere cfg);
             R = planetRadius cfg;
             phi = arccos (- 1 + 2 * real i / Ns);
             theta = sqrt (Ns * pi) * phi;
             x = positions (createParticles cfg rnd) ! (3 * i);
             y = positions (createParticles cfg rnd) ! (3 * i + 1);
             z = positions (createParticles cfg rnd) ! (3 * i + 2)
         in x = R * cos theta * sin phi
            \<and> y = R * sin theta * sin phi
            \<and> z = R * cos phi
            \<and> x\<^sup>2 + y\<^sup>2 + z\<^sup>2 = R\<^sup>2
            \<and> sqrt (x\<^sup>2 + y\<^sup>2 + z\<^sup>2) = \<bar>R\<bar>
            \<and> positions (createParticles cfg rnd') ! (3 * i) = x
            \<and> positions (createParticles cfg rnd') ! (3 * i + 1) = y
            \<and> positions (createParticles cfg rnd') ! (3 * i + 2) = z"
proof -
  have idx: "3 * i = i * 3"
    by simp
  note a = createParticles_sphere [OF assms, of rnd]
  note b = createParticles_sphere [OF assms, of rnd']
  show ?thesis
    unfolding Let_def idx a b
    by (simp add: sphere_point_def Let_def on_sphere)
qed

theorem C7_sphere_radius_witness:
  "0 < particleCountSphere CONFIG
   \<and> positions (createParticles CONFIG (\<lambda>k. 1/2)) ! 0 = 0
   \<and> positions (createParticles CONFIG (\<lambda>k. 1/2)) ! 1 = 0
   \<and> positions (createParticles CONFIG (\<lambda>k. 1/2)) ! 2 = - 5"
proof -
  have h: "0 < particleCountSphere CONFIG"
    by (simp add: CONFIG_def)
  have phi: "arccos (- 1 + 2 * real 0 / real (particleCountSphere CONFIG)) = pi"
    by simp
  have idx: "3 * 0 + 1 = (1::nat)" "3 * 0 + 2 = (2::nat)" and idx0: "3 * 0 = (0::nat)"
    by simp_all
  note c7 = C7_sphere_radius [OF h, of "\<lambda>k. 1/2" "\<lambda>k. 1/2", unfolded Let_def phi idx,
      unfolded idx0]
  have x: "positions (createParticles CONFIG (\<lambda>k. 1/2)) ! 0 = 0"
    using c7 [THEN conjunct1] by simp
  have y: "positions (createParticles CONFIG (\<lambda>k. 1/2)) ! 1 = 0"
    using c7 [THEN conjunct2, THEN conjunct1] by simp
  have z: "positions (createParticles CONFIG (\<lambda>k. 1/2)) ! 2 = - 5"
    using c7 [THEN conjunct2, THEN conjunct2, THEN conjunct1] by (simp add: CONFIG_def)
  show ?thesis
    using h x y z by blast
qed

text \<open>
  C8.  Ring particle \<open>i\<close> is built from three consecutive draws \<open>u1, u2, u3\<close> of the
  generator.  Whatever values in \<open>[0, 1)\<close> the draws take, and for radii
  \<open>0 \<le> Ri \<le> Ro\<close>: the planar radius \<open>r = sqrt (u2 (Ro\<^sup>2 - Ri\<^sup>2) + Ri\<^sup>2)\<close> lies between
  \<open>Ri\<close> and \<open>Ro\<close>, its square is the affine image \<open>Ri\<^sup>2 + u2 (Ro\<^sup>2 - Ri\<^sup>2)\<close> of the draw, the
  angle \<open>2 \<pi> u1\<close> lies in \<open>[0, 2 \<pi>)\<close> and the height \<open>(u3 - 0.5) 0.2\<close> lies in
  \<open>[-0.1, 0.1]\<close>.
\<close>

theorem C8_ring_bounds:
  assumes "i < particleCountRing cfg"
    and "0 \<le> ringInnerRadius cfg" and "ringInnerRadius cfg \<le> ringOuterRadius cfg"
    and "\<forall>k. 0 \<le> rnd k \<and> rnd k < 1"
  shows "let Ri = ringInnerRadius cfg;
             Ro = ringOuterRadius cfg;
             k = 3 * particleCountSphere cfg + 6 * i;
             angle = rnd k * pi * 2;
             r = sqrt (rnd (k + 1) * (Ro\<^sup>2 - Ri\<^sup>2) + Ri\<^sup>2);
             idx = particleCountSphere cfg * 3 + i * 3;
             x = positions (createParticles cfg rnd) ! idx;
             y = positions (createParticles cfg rnd) ! (idx + 1);
             z = positions (createParticles cfg rnd) ! (idx + 2)
         in x = r * cos angle \<and> y = (rnd (k + 2) - 0.5) * 0.2 \<and> z = r * sin angle
            \<and> Ri \<le> r \<and> r \<le> Ro
            \<and> r\<^sup>2 = Ri\<^sup>2 + rnd (k + 1) * (Ro\<^sup>2 - Ri\<^sup>2)
            \<and> x\<^sup>2 + z\<^sup>2 = r\<^sup>2
            \<and> 0 \<le> angle \<and> angle < 2 * pi
            \<and> - 0.1 \<le> y \<and> y \<le> 0.1"
proof -
  define k where "k = 3 * particleCountSphere cfg + 6 * i"
  define Ri Ro where "Ri = ringInnerRadius cfg" and "Ro = ringOuterRadius cfg"
  define r where "r = sqrt (rnd (k + 1) * (Ro\<^sup>2 - Ri\<^sup>2) + Ri\<^sup>2)"
  define angle where "angle = rnd k * pi * 2"
  have u: "0 \<le> rnd j" "rnd j < 1" for j
    using assms(4) by simp_all
  have pt: "ring_point cfg (rnd k) (rnd (k + 1)) (rnd (k + 2))
      = (r * cos angle, (rnd (k + 2) - 0.5) * 0.2, r * sin angle)"
    by (simp add: ring_point_def Let_def r_def angle_def Ri_def Ro_def power2_eq_square)
  note cp = createParticles_ring [OF assms(1), of rnd, folded k_def, unfolded pt]
  have rb: "Ri \<le> r" "r \<le> Ro" "r\<^sup>2 = Ri\<^sup>2 + rnd (k + 1) * (Ro\<^sup>2 - Ri\<^sup>2)"
    unfolding r_def
    using ring_radius_bounds [OF u(1) u(2), of Ri Ro "k + 1"] assms(2,3)
    by (simp_all add: Ri_def Ro_def)
  have ab: "0 \<le> angle" "angle < 2 * pi"
    using u [of k] by (simp_all add: angle_def)
  have yb: "- 0.1 \<le> (rnd (k + 2) - 0.5) * 0.2" "(rnd (k + 2) - 0.5) * 0.2 \<le> 0.1"
    using u [of "k + 2"] by simp_all
  show ?thesis
    unfolding Let_def k_def [symmetric] Ri_def [symmetric] Ro_def [symmetric]
      r_def [symmetric] angle_def [symmetric]
    using cp rb ab yb by (simp add: on_circle)
qed

theorem C8_ring_bounds_witness:
  "0 < particleCountRing CONFIG
   \<and> 0 \<le> ringInnerRadius CONFIG
   \<and> ringInnerRadius CONFIG \<le> ringOuterRadius CONFIG
   \<and> positions (createParticles CONFIG (\<lambda>k. 1/2)) ! 60001 = 0
   \<and> 7 \<le> sqrt (1/2 * (12\<^sup>2 - 7\<^sup>2) + 7\<^sup>2)
   \<and> sqrt (1/2 * (12\<^sup>2 - 7\<^sup>2) + 7\<^sup>2) \<le> 12"
proof -
  have h: "0 < particleCountRing CONFIG" "0 \<le> ringInnerRadius CONFIG"
    "ringInnerRadius CONFIG \<le> ringOuterRadius CONFIG"
    "\<forall>k. 0 \<le> (\<lambda>k. 1/2 :: real) k \<and> (\<lambda>k. 1/2 :: real) k < 1"
    by (simp_all add: CONFIG_def)
  note c8 = C8_ring_bounds [OF h, unfolded Let_def]
  have "positions (createParticles CONFIG (\<lambda>k. 1/2)) ! (particleCountSphere CONFIG * 3 + 0 * 3 + 1)
      = (1/2 - 0.5) * 0.2"
    using c8 by blast
  then have y: "positions (createParticles CONFIG (\<lambda>k. 1/2)) ! 60001 = 0"
    by (simp add: CONFIG_def)
  have "ringInnerRadius CONFIG \<le> sqrt (1/2 * ((ringOuterRadius CONFIG)\<^sup>2 - (ringInnerRadius CONFIG)\<^sup>2) + (ringInnerRadius CONFIG)\<^sup>2)"
    "sqrt (1/2 * ((ringOuterRadius CONFIG)\<^sup>2 - (ringInnerRadius CONFIG)\<^sup>2) + (ringInnerRadius CONFIG)\<^sup>2) \<le> ringOuterRadius CONFIG"
    using c8 by blast+
  then have r: "7 \<le> sqrt (1/2 * (12\<^sup>2 - 7\<^sup>2) + 7\<^sup>2)" "sqrt (1/2 * (12\<^sup>2 - 7\<^sup>2) + 7\<^sup>2) \<le> 12"
    by (simp_all add: CONFIG_def)
  show ?thesis
    using h(1,2,3) y r by blast
qed

subsection \<open>Detection is skipped for a repeated frame\<close>

lemma onResults_hand_frame:
  "lastVideoTime (snd (onResults_hand conns ray lms s)) = lastVideoTime s"
  "detections (snd (onResults_hand conns ray lms s)) = detections s"
  by (simp_all add: onResults_hand_def updateInteraction_eq Let_def split: option.splits)

lemma onResults_loop_frame:
  "lastVideoTime (snd (onResults_loop conns ray hs s)) = lastVideoTime s
   \<and> detections (snd (onResults_loop conns ray hs s)) = detections s"
proof (induction hs arbitrary: s)
  case Nil
  then show ?case by simp
next
  case (Cons lms rest)
  obtain e s' where step: "onResults_hand conns ray lms s = (e, s')"
    by (cases "onResults_hand conns ray lms s")
  then have same: "lastVideoTime s' = lastVideoTime s" "detections s' = detections s"
    using onResults_hand_frame [of conns ray lms s] by simp_all
  show ?case
    using step same Cons.IH [of s'] by (cases e) simp_all
qed

lemma onResults_frame:
  "lastVideoTime (snd (onResults conns ray res s)) = lastVideoTime s"
  "detections (snd (onResults conns ray res s)) = detections s"
  using onResults_loop_frame [of conns ray _ s]
  by (simp_all add: onResults_def split: option.splits)

lemma predictWebcam_frame:
  "lastVideoTime (predictWebcam lm conns ray t ms s) = t"
  "detections (predictWebcam lm conns ray t ms s) = detections s
   \<or> (t \<noteq> lastVideoTime s \<and> detections (predictWebcam lm conns ray t ms s) = detections s @ [t])"
  by (auto simp: predictWebcam_def Let_def onResults_frame split: option.splits sum.splits)

lemma predictWebcam_log_ok:
  assumes "log_ok s" and "lastVideoTime s \<le> t"
  shows "log_ok (predictWebcam lm conns ray t ms s)"
proof (cases "t = lastVideoTime s")
  case True
  then show ?thesis
    using assms(1) by (simp add: predictWebcam_def)
next
  case False
  then have later: "lastVideoTime s < t"
    using assms(2) by simp
  have old: "\<forall>u \<in> set (detections s). u < t"
    using assms(1) later by (auto simp: log_ok_def list_all_iff)
  have "detections (predictWebcam lm conns ray t ms s) = detections s
      \<or> detections (predictWebcam lm conns ray t ms s) = detections s @ [t]"
    using predictWebcam_frame(2) [of lm conns ray t ms s] by blast
  then show ?thesis
    using assms(1) old
    by (auto simp: log_ok_def list_all_iff predictWebcam_frame(1) less_imp_le)
qed

lemma webcam_loop_log_ok:
  assumes "log_ok s" and "sorted (lastVideoTime s # map fst frames)"
  shows "log_ok (webcam_loop lm conns ray frames s)"
  using assms
proof (induction frames arbitrary: s)
  case Nil
  then show ?case by simp
next
  case (Cons f rest)
  obtain t ms where f: "f = (t, ms)"
    by (cases f)
  have le: "lastVideoTime s \<le> t"
    using Cons.prems(2) f by simp
  have ok: "log_ok (predictWebcam lm conns ray t ms s)"
    by (rule predictWebcam_log_ok [OF Cons.prems(1) le])
  have "sorted (lastVideoTime (predictWebcam lm conns ray t ms s) # map fst rest)"
    using Cons.prems(2) f by (simp add: predictWebcam_frame(1))
  from Cons.IH [OF ok this] show ?case
    by (simp add: f)
qed

lemma initial_log_ok: "log_ok initial_state"
  by (simp add: log_ok_def initial_state_def)

text \<open>
  C9, as the code behaves.  In \<^verbatim>\<open>predictWebcam\<close> a run whose video time equals the
  time of the last processed frame changes nothing: no detection is requested and no
  state is written.  A run requests at most one detection, of the current frame and
  only when the time differs, so with video times that never go back no time is sent
  to the provider twice.  The legacy loop \<^verbatim>\<open>sendFrame\<close> compares no times: whenever the
  video has data it sends the current frame, a repeated one included.
\<close>

theorem C9_detection_per_frame:
  "(currentTime = lastVideoTime s \<longrightarrow>
      predictWebcam handLandmarker conns ray currentTime startTimeMs s = s)
   \<and> (detections (predictWebcam handLandmarker conns ray currentTime startTimeMs s) = detections s
      \<or> (currentTime \<noteq> lastVideoTime s
          \<and> detections (predictWebcam handLandmarker conns ray currentTime startTimeMs s)
              = detections s @ [currentTime]))
   \<and> (log_ok s \<and> sorted (lastVideoTime s # map fst frames) \<longrightarrow>
        distinct (detections (webcam_loop handLandmarker conns ray frames s)))
   \<and> (sorted (map fst frames) \<and> list_all (\<lambda>f. 0 \<le> fst f) frames \<longrightarrow>
        distinct (detections (webcam_loop handLandmarker conns ray frames initial_state)))
   \<and> (2 \<le> readyState \<longrightarrow>
        detections (sendFrame hands_send ray' readyState currentTime s) = detections s @ [currentTime])"
proof -
  have skip: "currentTime = lastVideoTime s \<longrightarrow>
      predictWebcam handLandmarker conns ray currentTime startTimeMs s = s"
    by (simp add: predictWebcam_def)
  note once = predictWebcam_frame(2) [of handLandmarker conns ray currentTime startTimeMs s]
  have run: "log_ok s \<and> sorted (lastVideoTime s # map fst frames) \<longrightarrow>
      distinct (detections (webcam_loop handLandmarker conns ray frames s))"
    using webcam_loop_log_ok [of s frames handLandmarker conns ray] by (simp add: log_ok_def)
  have start: "sorted (map fst frames) \<and> list_all (\<lambda>f. 0 \<le> fst f) frames \<longrightarrow>
      distinct (detections (webcam_loop handLandmarker conns ray frames initial_state))"
  proof
    assume fr: "sorted (map fst frames) \<and> list_all (\<lambda>f. 0 \<le> fst f) frames"
    then have "\<forall>t \<in> set (map fst frames). lastVideoTime initial_state \<le> t"
      by (auto simp: list_all_iff initial_state_def)
    then have "sorted (lastVideoTime initial_state # map fst frames)"
      using fr by simp
    from webcam_loop_log_ok [OF initial_log_ok this]
    show "distinct (detections (webcam_loop handLandmarker conns ray frames initial_state))"
      by (simp add: log_ok_def)
  qed
  have legacy: "2 \<le> readyState \<longrightarrow>
      detections (sendFrame hands_send ray' readyState currentTime s) = detections s @ [currentTime]"
    by (simp add: sendFrame_def Let_def onResults_frame split: sum.splits)
  from skip once run start legacy show ?thesis
    by (intro conjI)
qed

theorem C9_detection_per_frame_witness:
  "0 = lastVideoTime (predictWebcam (Some no_hands_video) None miss 0 0 initial_state)
   \<and> predictWebcam (Some no_hands_video) None miss 0 16
        (predictWebcam (Some no_hands_video) None miss 0 0 initial_state)
       = predictWebcam (Some no_hands_video) None miss 0 0 initial_state
   \<and> detections (webcam_loop (Some no_hands_video) None miss
        [(0, 0), (0, 16), (1/30, 33)] initial_state) = [0, 1/30]
   \<and> (2::nat) \<le> 4
   \<and> detections (sendFrame no_hands miss 4 0 (sendFrame no_hands miss 4 0 initial_state)) = [0, 0]"
proof -
  let ?s1 = "predictWebcam (Some no_hands_video) None miss 0 0 initial_state"
  have t: "0 = lastVideoTime ?s1"
    by (simp add: predictWebcam_frame(1))
  have skip: "predictWebcam (Some no_hands_video) None miss 0 16 ?s1 = ?s1"
    using C9_detection_per_frame [of 0 ?s1 "Some no_hands_video" None miss 16] t by simp
  have first: "detections ?s1 = [0]"
    by (simp add: predictWebcam_def initial_state_def no_hands_video_def onResults_def)
  have run: "detections (webcam_loop (Some no_hands_video) None miss
        [(0, 0), (0, 16), (1/30, 33)] initial_state) = [0, 1/30]"
    using first t by (simp add: skip) (simp add: predictWebcam_def no_hands_video_def onResults_def)
  have legacy: "detections (sendFrame no_hands miss 4 0 (sendFrame no_hands miss 4 0 initial_state)) = [0, 0]"
    by (simp add: sendFrame_def no_hands_def onResults_def initial_state_def)
  show ?thesis
    using t skip run legacy by simp
qed

text \<open>
  C9 as the specification states it fails on the legacy loop: a second run of
  \<^verbatim>\<open>sendFrame\<close> at the video time of the frame just processed sends that frame again,
  and the answer rewrites the gesture state (here it clears the repulsion a mouse move
  had switched on in between).
\<close>

theorem C9_sendFrame_counterexample:
  "detections (sendFrame no_hands miss 4 (1/30) initial_state) = [1/30]
   \<and> detections (sendFrame no_hands miss 4 (1/30) (sendFrame no_hands miss 4 (1/30) initial_state))
       = [1/30, 1/30]
   \<and> uHover (mousemove miss 320 240 640 480 (sendFrame no_hands miss 4 (1/30) initial_state)) = 1
   \<and> uHover (sendFrame no_hands miss 4 (1/30)
        (mousemove miss 320 240 640 480 (sendFrame no_hands miss 4 (1/30) initial_state))) = 0"
  by (simp add: sendFrame_def no_hands_def onResults_def initial_state_def mousemove_def
      updateInteraction_eq Let_def)

end
